theory Spec2Isabelle
  imports Complex_Main "HOL-Library.AList" "HOL-Library.Sublist"
begin

section \<open>Python values\<close>

subsection \<open>Strings\<close>

text \<open>
  A Python \<open>str\<close> is a sequence of Unicode code points, and slicing and \<open>len\<close> count code
  points; it is modelled as a list of code points. \<open>ascii\<close> reads a literal of the source.
\<close>

type_synonym pystr = "nat list"

definition ascii :: "string \<Rightarrow> pystr" where
  "ascii s = map of_char s"

text \<open>
  \<open>str.isspace\<close> of one character: the white space code points of CPython's Unicode database
  (U+0009..U+000D, U+001C..U+0020, U+0085, U+00A0, U+1680, U+2000..U+200A, U+2028, U+2029,
  U+202F, U+205F, U+3000).
\<close>

definition isspace :: "nat \<Rightarrow> bool" where
  "isspace c \<longleftrightarrow> (9 \<le> c \<and> c \<le> 13) \<or> (28 \<le> c \<and> c \<le> 32) \<or> c = 133 \<or> c = 160
     \<or> c = 5760 \<or> (8192 \<le> c \<and> c \<le> 8202) \<or> c = 8232 \<or> c = 8233 \<or> c = 8239
     \<or> c = 8287 \<or> c = 12288"

definition lstrip :: "pystr \<Rightarrow> pystr" where
  "lstrip s = dropWhile isspace s"

definition rstrip :: "pystr \<Rightarrow> pystr" where
  "rstrip s = rev (dropWhile isspace (rev s))"

definition strip :: "pystr \<Rightarrow> pystr" where
  "strip s = lstrip (rstrip s)"

definition startswith :: "pystr \<Rightarrow> pystr \<Rightarrow> bool" where
  "startswith s p \<longleftrightarrow> take (length p) s = p"

definition endswith :: "pystr \<Rightarrow> pystr \<Rightarrow> bool" where
  "endswith s p \<longleftrightarrow> length p \<le> length s \<and> drop (length s - length p) s = p"

text \<open>\<open>p in s\<close> on strings: \<open>p\<close> occurs in \<open>s\<close> as a contiguous piece.\<close>

fun contains :: "pystr \<Rightarrow> pystr \<Rightarrow> bool" where
  "contains [] p \<longleftrightarrow> p = []"
| "contains (c # s) p \<longleftrightarrow> startswith (c # s) p \<or> contains s p"

text \<open>\<open>str(n)\<close> of an integer: its decimal digits, with a minus sign when negative.\<close>

fun str_nat :: "nat \<Rightarrow> pystr" where
  "str_nat n = (if n < 10 then [48 + n] else str_nat (n div 10) @ [48 + n mod 10])"

definition str_int :: "int \<Rightarrow> pystr" where
  "str_int i = (if i < 0 then 45 # str_nat (nat (- i)) else str_nat (nat i))"

subsection \<open>JSON values\<close>

text \<open>
  What \<open>json.loads\<close> and \<open>response.json()\<close> return, and what \<open>json=payload\<close> sends. An
  object is the list of its items in order (a Python dict with \<open>str\<close> keys); \<open>JFloat\<close> holds
  the value of a finite float.
\<close>

datatype json =
    JNull
  | JBool bool
  | JInt int
  | JFloat rat
  | JStr pystr
  | JArr "json list"
  | JObj "(pystr \<times> json) list"

type_synonym pydict = "(pystr \<times> json) list"

text \<open>\<open>d.get(k)\<close>: the value stored under \<open>k\<close>, \<open>None\<close> when there is none.\<close>

definition dict_get :: "pydict \<Rightarrow> pystr \<Rightarrow> json" where
  "dict_get d k = (case map_of d k of None \<Rightarrow> JNull | Some v \<Rightarrow> v)"

text \<open>The member of an object under a key, if it is an object and has one.\<close>

definition json_member :: "json \<Rightarrow> pystr \<Rightarrow> json option" where
  "json_member v k = (case v of JObj d \<Rightarrow> map_of d k | _ \<Rightarrow> None)"

subsection \<open>Exceptions\<close>

text \<open>
  The exceptions that reach a handler of the modelled code. \<open>HTTPStatusError\<close> carries the
  status code and the text of the response, \<open>RequestError\<close> stands for every other failure
  of the HTTP client (time-out, refused connection) with a description, \<open>KeyError\<close> carries
  the key, \<open>JSONDecodeError\<close> the document that did not parse (its \<open>doc\<close> attribute), and
  \<open>HTTPException\<close> is FastAPI's, with \<open>status_code\<close> and \<open>detail\<close>.
\<close>

datatype py_exn =
    HTTPStatusError nat pystr
  | RequestError pystr
  | KeyError json
  | IndexError
  | TypeError
  | AttributeError
  | JSONDecodeError pystr
  | ValidationError
  | OSError
  | HTTPException nat pystr

definition try_bind :: "'e + 'a \<Rightarrow> ('a \<Rightarrow> 'e + 'b) \<Rightarrow> 'e + 'b" where
  "try_bind r f = (case r of Inl e \<Rightarrow> Inl e | Inr x \<Rightarrow> f x)"

text \<open>\<open>v[k]\<close> for a string key: only a dict can be indexed by a string.\<close>

fun getitem_key :: "json \<Rightarrow> pystr \<Rightarrow> py_exn + json" where
  "getitem_key (JObj d) k = (case map_of d k of None \<Rightarrow> Inl (KeyError (JStr k)) | Some v \<Rightarrow> Inr v)"
| "getitem_key _ k = Inl TypeError"

text \<open>\<open>v[0]\<close>: the first element of a list, the first character of a string.\<close>

fun getitem_0 :: "json \<Rightarrow> py_exn + json" where
  "getitem_0 (JArr []) = Inl IndexError"
| "getitem_0 (JArr (x # xs)) = Inr x"
| "getitem_0 (JStr []) = Inl IndexError"
| "getitem_0 (JStr (c # s)) = Inr (JStr [c])"
| "getitem_0 (JObj d) = Inl (KeyError (JInt 0))"
| "getitem_0 _ = Inl TypeError"

text \<open>\<open>k in v\<close> for a string \<open>k\<close>: a key of a dict, an element of a list, a piece of a string.\<close>

fun py_in :: "pystr \<Rightarrow> json \<Rightarrow> py_exn + bool" where
  "py_in k (JObj d) = Inr (map_of d k \<noteq> None)"
| "py_in k (JArr xs) = Inr (JStr k \<in> set xs)"
| "py_in k (JStr s) = Inr (contains s k)"
| "py_in k _ = Inl TypeError"

fun py_len :: "json \<Rightarrow> py_exn + nat" where
  "py_len (JArr xs) = Inr (length xs)"
| "py_len (JStr s) = Inr (length s)"
| "py_len (JObj d) = Inr (length d)"
| "py_len _ = Inl TypeError"

section \<open>The environment of a request\<close>

text \<open>
  One HTTP request as \<open>client.post\<close> receives it (URL, headers, \<open>json=payload\<close>,
  time-out), and what comes of it up to and including \<open>response.json()\<close>: an exception
  (from \<open>post\<close>, \<open>raise_for_status\<close> or \<open>json\<close>) or the decoded body.
\<close>

record request =
  req_url :: pystr
  req_headers :: "(pystr \<times> pystr) list"
  req_json :: json
  req_timeout :: nat

datatype http_outcome = Raised py_exn | Body json

text \<open>
  Everything the code takes from outside itself: the environment variable read at import,
  the network (the outcome of a request, given how many requests the call made before it),
  the JSON parser (\<open>None\<close> for a \<open>JSONDecodeError\<close>), the interpreter's rendering of
  exceptions and values in f-strings, its Unicode case mapping, \<open>uuid.uuid4()\<close>, and
  pydantic's coercion of a value to \<open>str\<close> and to \<open>int\<close>.
\<close>

record env =
  OPENROUTER_API_KEY :: "pystr option"
  post :: "nat \<Rightarrow> request \<Rightarrow> http_outcome"
  json_loads :: "pystr \<Rightarrow> json option"
  str_exn :: "py_exn \<Rightarrow> pystr"
  str_json :: "json \<Rightarrow> pystr"
  lower :: "pystr \<Rightarrow> pystr"
  isdigit :: "nat \<Rightarrow> bool"
  uuid4 :: pystr
  coerce_str :: "json \<Rightarrow> pystr option"
  coerce_int :: "json \<Rightarrow> int option"

text \<open>\<open>str(last_error)\<close>, where \<open>last_error\<close> starts as \<open>None\<close>.\<close>

definition str_last_error :: "env \<Rightarrow> py_exn option \<Rightarrow> pystr" where
  "str_last_error env last_error =
     (case last_error of None \<Rightarrow> ascii ''None'' | Some e \<Rightarrow> str_exn env e)"

text \<open>\<open>not OPENROUTER_API_KEY\<close>: the variable is unset or empty.\<close>

definition configured_key :: "env \<Rightarrow> pystr option" where
  "configured_key env =
     (case OPENROUTER_API_KEY env of None \<Rightarrow> None | Some k \<Rightarrow> if k = [] then None else Some k)"

definition message :: "string \<Rightarrow> pystr \<Rightarrow> json" where
  "message role content = JObj [(ascii ''role'', JStr (ascii role)), (ascii ''content'', JStr content)]"

section \<open>Response clean-up shared by symptom_checker.py and reports.py\<close>

text \<open>
  The block "Clean the response if it has markdown code blocks"
  (symptom_checker.py lines 179-188, reports.py lines 178-186, the same statements):
  \<^verbatim>\<open>
  if raw.strip().startswith("```"):
      raw = raw.strip()
      if raw.startswith("```json"):   raw = raw[7:]
      elif raw.startswith("```"):     raw = raw[3:]
      if raw.endswith("```"):         raw = raw[:-3]
      raw = raw.strip()
  \<close>
\<close>

definition normalize_response :: "pystr \<Rightarrow> pystr" where
  \<open>normalize_response raw =
     (if startswith (strip raw) (ascii ''```'') then
        let t = strip raw;
            t = (if startswith t (ascii ''```json'') then drop 7 t
                 else if startswith t (ascii ''```'') then drop 3 t else t);
            t = (if endswith t (ascii ''```'') then take (length t - 3) t else t)
        in strip t
      else raw)\<close>

text \<open>\<open>data["choices"][0]["message"]["content"]\<close>.\<close>

definition first_content :: "json \<Rightarrow> py_exn + json" where
  "first_content data =
     try_bind (getitem_key data (ascii ''choices'')) (\<lambda>choices.
     try_bind (getitem_0 choices) (\<lambda>choice.
     try_bind (getitem_key choice (ascii ''message'')) (\<lambda>msg.
     getitem_key msg (ascii ''content''))))"

section \<open>chat.py\<close>

definition chat_models_to_try :: "pystr list" where
  "chat_models_to_try =
     [ascii ''zhipuai/glm-4-plus'', ascii ''zhipuai/glm-4-0520'', ascii ''zhipuai/glm-4'',
      ascii ''openai/gpt-4o'', ascii ''openai/gpt-3.5-turbo'']"

definition OPENROUTER_BASE_URL :: pystr where
  "OPENROUTER_BASE_URL = ascii ''https://openrouter.ai/api/v1''"

definition request_headers :: "pystr \<Rightarrow> string \<Rightarrow> (pystr \<times> pystr) list" where
  "request_headers key title =
     [(ascii ''Authorization'', ascii ''Bearer '' @ key),
      (ascii ''Content-Type'', ascii ''application/json''),
      (ascii ''HTTP-Referer'', ascii ''http://localhost:3000''),
      (ascii ''X-Title'', ascii title)]"

definition chat_request :: "pystr \<Rightarrow> json \<Rightarrow> pystr \<Rightarrow> request" where
  "chat_request key messages model_name =
     \<lparr>req_url = OPENROUTER_BASE_URL @ ascii ''/chat/completions'',
      req_headers = request_headers key ''MediClear Chat'',
      req_json = JObj [(ascii ''model'', JStr model_name),
                      (ascii ''messages'', messages),
                      (ascii ''temperature'', JFloat (7 / 10)),
                      (ascii ''max_tokens'', JInt 2000),
                      (ascii ''stream'', JBool False)],
      req_timeout = 60\<rparr>"

text \<open>
  The \<open>try\<close> block of one iteration of \<open>call_glm_model\<close>, as the \<open>n\<close>-th request of the
  call: the content it returns, or the exception it raises (in \<open>post\<close>, \<open>raise_for_status\<close>,
  \<open>json\<close> or the indexing of the body).
\<close>

definition chat_try :: "env \<Rightarrow> pystr \<Rightarrow> json \<Rightarrow> nat \<Rightarrow> pystr \<Rightarrow> py_exn + json" where
  "chat_try env key messages n model_name =
     (case post env n (chat_request key messages model_name) of
        Raised e \<Rightarrow> Inl e
      | Body data \<Rightarrow> first_content data)"

text \<open>
  The loop of \<open>call_glm_model\<close> over the models still to try, with \<open>last_error\<close> and the
  requests sent so far, and the \<open>raise\<close> that follows it. Both handlers store the exception
  and continue.
\<close>

fun chat_loop ::
  "env \<Rightarrow> pystr \<Rightarrow> json \<Rightarrow> pystr list \<Rightarrow> py_exn option \<Rightarrow> request list
     \<Rightarrow> (py_exn + json) \<times> request list" where
  "chat_loop env key messages [] last_error sent =
     (Inl (HTTPException 500
        (ascii ''All GLM models failed. Last error: '' @ str_last_error env last_error)), sent)"
| "chat_loop env key messages (model_name # models) last_error sent =
     (let sent' = sent @ [chat_request key messages model_name] in
      case chat_try env key messages (length sent) model_name of
        Inl e \<Rightarrow> chat_loop env key messages models (Some e) sent'
      | Inr content \<Rightarrow> (Inr content, sent'))"

text \<open>The result of the call and the requests it sent, in order.\<close>

definition call_glm_model :: "env \<Rightarrow> json \<Rightarrow> (py_exn + json) \<times> request list" where
  "call_glm_model env messages =
     (case configured_key env of
        None \<Rightarrow> (Inl (HTTPException 500 (ascii ''OPENROUTER_API_KEY not configured'')), [])
      | Some key \<Rightarrow> chat_loop env key messages chat_models_to_try None [])"

text \<open>
  \<open>calculate_confidence\<close>. The score is a float: \<open>flt\<close> reads a decimal literal of the source
  into the carrier of the floats, of which only the order, \<open>+\<close> and \<open>-\<close> are used, and
  \<open>max\<close> and \<open>min\<close> are Python's, which return their first argument unless the second is
  strictly beyond it.
\<close>

definition py_max :: "'f::linorder \<Rightarrow> 'f \<Rightarrow> 'f" where
  "py_max a b = (if b > a then b else a)"

definition py_min :: "'f::linorder \<Rightarrow> 'f \<Rightarrow> 'f" where
  "py_min a b = (if b < a then b else a)"

definition uncertain_phrases :: "pystr list" where
  \<open>uncertain_phrases =
     [ascii ''may'', ascii ''might'', ascii ''possibly'', ascii ''unclear'', ascii ''uncertain'',
      ascii ''don't have enough'', ascii ''cannot determine'', ascii ''insufficient data'',
      ascii ''would need more'', ascii ''consult with'', ascii ''speak to your doctor'']\<close>

definition medical_terms :: "pystr list" where
  "medical_terms =
     [ascii ''diagnosis'', ascii ''test result'', ascii ''level'', ascii ''range'',
      ascii ''normal'', ascii ''abnormal'']"

definition calculate_confidence ::
  "(rat \<Rightarrow> 'f::{linorder,plus,minus}) \<Rightarrow> env \<Rightarrow> pystr \<Rightarrow> 'r list \<Rightarrow> pystr \<Rightarrow> 'f" where
  "calculate_confidence flt env question records answer =
     (let confidence = flt (3 / 10);
          confidence = (if records \<noteq> [] then confidence + flt (3 / 10) else confidence);
          confidence = (if list_ex (isdigit env) answer then confidence + flt (2 / 10)
                        else confidence);
          confidence = (if list_ex (contains (lower env answer)) uncertain_phrases
                        then confidence - flt (25 / 100) else confidence);
          confidence = (if list_ex (contains (lower env answer)) medical_terms
                        then confidence + flt (15 / 100) else confidence)
      in py_max (flt (1 / 10)) (py_min (flt 1) confidence))"

section \<open>symptom_checker.py\<close>

record SymptomRequest =
  symptoms :: pystr
  age :: int
  gender :: pystr
  duration :: pystr
  severity :: int

record PossibleCondition =
  condition :: pystr
  probability :: int
  description :: pystr

record SymptomAssessment =
  assessment_id :: pystr
  urgency_level :: pystr
  urgency_score :: int
  possible_conditions :: "PossibleCondition list"
  recommended_tests :: "pystr list"
  action_items :: "pystr list"
  warning_signs :: "pystr list"
  when_to_seek_care :: pystr

definition system_instruction :: pystr where
  \<open>system_instruction =
     ascii ''You are a medical AI assistant providing preliminary, non-diagnostic guidance. '' @
     ascii ''Analyze the user's symptoms and generate a comprehensive assessment strictly in JSON format. '' @
     ascii ''Your response MUST be valid JSON that conforms to this exact structure:\<newline>'' @
     ascii ''{\<newline>'' @
     ascii ''  "assessment_id": "string",\<newline>'' @
     ascii ''  "urgency_level": "NORMAL or MODERATE or URGENT",\<newline>'' @
     ascii ''  "urgency_score": number (1-100),\<newline>'' @
     ascii ''  "possible_conditions": [{"condition": "string", "probability": number (0-100), "description": "string"}],\<newline>'' @
     ascii ''  "recommended_tests": ["string"],\<newline>'' @
     ascii ''  "action_items": ["string"],\<newline>'' @
     ascii ''  "warning_signs": ["string"],\<newline>'' @
     ascii ''  "when_to_seek_care": "string"\<newline>'' @
     ascii ''}\<newline>'' @
     ascii ''Do not include any text, markdown, or explanation outside the JSON object. '' @
     ascii ''Return ONLY valid JSON.''\<close>

definition pinned_id :: "pystr \<Rightarrow> pystr" where
  "pinned_id new_id = ascii ''The assessment_id field MUST be set to: '' @ new_id"

definition symptom_user_prompt :: "SymptomRequest \<Rightarrow> pystr \<Rightarrow> pystr" where
  "symptom_user_prompt data new_id =
     ascii ''\<newline>Analyze the following patient data for a symptom assessment:\<newline>'' @
     ascii ''- Symptoms Description: '' @ symptoms data @ ascii ''\<newline>'' @
     ascii ''- Age: '' @ str_int (age data) @ ascii '' years, Gender: '' @ gender data @ ascii ''\<newline>'' @
     ascii ''- Duration: '' @ duration data @ ascii ''\<newline>'' @
     ascii ''- Severity: '' @ str_int (severity data) @ ascii ''/10\<newline>'' @
     ascii ''\<newline>'' @
     pinned_id new_id @ ascii ''\<newline>'' @
     ascii ''\<newline>'' @
     ascii ''Provide your response as a valid JSON object only.\<newline>''"

definition symptom_models_to_try :: "pystr list" where
  "symptom_models_to_try =
     [ascii ''zhipuai/glm-4-plus'', ascii ''zhipuai/glm-4-0520'', ascii ''zhipuai/glm-4'',
      ascii ''openai/gpt-3.5-turbo'']"

text \<open>"Only add response_format for models that support it".\<close>

definition supports_json_mode :: "env \<Rightarrow> pystr \<Rightarrow> bool" where
  "supports_json_mode env model_name \<longleftrightarrow>
     contains (lower env model_name) (ascii ''gpt'') \<or>
     contains (lower env model_name) (ascii ''deepseek'')"

definition symptom_payload :: "env \<Rightarrow> pystr \<Rightarrow> pystr \<Rightarrow> pydict" where
  "symptom_payload env user_prompt model_name =
     (let payload = [(ascii ''model'', JStr model_name),
                     (ascii ''messages'',
                        JArr [message ''system'' system_instruction, message ''user'' user_prompt]),
                     (ascii ''temperature'', JFloat (7 / 10))]
      in if supports_json_mode env model_name
         then AList.update (ascii ''response_format'')
                (JObj [(ascii ''type'', JStr (ascii ''json_object''))]) payload
         else payload)"

definition symptom_request :: "env \<Rightarrow> pystr \<Rightarrow> pystr \<Rightarrow> pystr \<Rightarrow> request" where
  "symptom_request env key user_prompt model_name =
     \<lparr>req_url = ascii ''https://openrouter.ai/api/v1/chat/completions'',
      req_headers = request_headers key ''MediClear Symptom Checker'',
      req_json = JObj (symptom_payload env user_prompt model_name),
      req_timeout = 60\<rparr>"

text \<open>
  The \<open>try\<close> block of one iteration of the loop of \<open>analyze_symptoms\<close>, as the \<open>n\<close>-th
  request of the call: the decoded body with which it breaks, or the exception it raises.
\<close>

definition symptom_try :: "env \<Rightarrow> pystr \<Rightarrow> pystr \<Rightarrow> nat \<Rightarrow> pystr \<Rightarrow> py_exn + json" where
  "symptom_try env key user_prompt n model_name =
     (case post env n (symptom_request env key user_prompt model_name) of
        Raised e \<Rightarrow> Inl e
      | Body result \<Rightarrow> Inr result)"

text \<open>
  The \<open>for ... else\<close> loop of \<open>analyze_symptoms\<close>: it leaves with the decoded body of the
  first request that raises nothing (\<open>break\<close>), and its \<open>else\<close> raises when the models
  are used up; that \<open>raise\<close> is outside the \<open>try\<close> blocks.
\<close>

fun symptom_loop ::
  "env \<Rightarrow> pystr \<Rightarrow> pystr \<Rightarrow> pystr list \<Rightarrow> py_exn option \<Rightarrow> request list
     \<Rightarrow> (py_exn + json) \<times> request list" where
  "symptom_loop env key user_prompt [] last_error sent =
     (Inl (HTTPException 500
        (ascii ''All GLM models failed. Please check your API key. Last error: ''
         @ str_last_error env last_error)), sent)"
| "symptom_loop env key user_prompt (model_name # models) last_error sent =
     (let sent' = sent @ [symptom_request env key user_prompt model_name] in
      case symptom_try env key user_prompt (length sent) model_name of
        Inl e \<Rightarrow> symptom_loop env key user_prompt models (Some e) sent'
      | Inr result \<Rightarrow> (Inr result, sent'))"

text \<open>
  Step 5 up to the assignment of \<open>raw_json_text\<close> and its first uses as a string
  (\<open>raw_json_text[:1000]\<close>, then \<open>.strip()\<close>): a list can be sliced but has no \<open>strip\<close>, the
  other values cannot be sliced (a dict gives \<open>KeyError\<close> instead from Python 3.12 on).
\<close>

definition extract_raw_json_text :: "env \<Rightarrow> json \<Rightarrow> py_exn + pystr" where
  "extract_raw_json_text env result =
     (let unexpected = HTTPException 500
            (ascii ''Unexpected API response format: '' @ str_json env result) in
      try_bind (py_in (ascii ''choices'') result) (\<lambda>has_choices.
        if \<not> has_choices then Inl unexpected
        else
          try_bind (getitem_key result (ascii ''choices'')) (\<lambda>choices.
          try_bind (py_len choices) (\<lambda>n.
            if n = 0 then Inl unexpected
            else
              try_bind (first_content result) (\<lambda>content.
                case content of
                  JStr raw_json_text \<Rightarrow> Inr raw_json_text
                | JArr xs \<Rightarrow> Inl AttributeError
                | _ \<Rightarrow> Inl TypeError)))))"

text \<open>
  \<open>SymptomAssessment(**assessment_data)\<close>: every field is required (none has a default),
  a field that is missing or whose value is not accepted makes the validation fail, and keys
  that are no field are ignored.
\<close>

definition str_field :: "env \<Rightarrow> pydict \<Rightarrow> string \<Rightarrow> pystr option" where
  "str_field env d k = (case map_of d (ascii k) of None \<Rightarrow> None | Some v \<Rightarrow> coerce_str env v)"

definition int_field :: "env \<Rightarrow> int \<Rightarrow> int \<Rightarrow> pydict \<Rightarrow> string \<Rightarrow> int option" where
  "int_field env ge le d k =
     (case map_of d (ascii k) of
        None \<Rightarrow> None
      | Some v \<Rightarrow>
          (case coerce_int env v of
             None \<Rightarrow> None
           | Some n \<Rightarrow> if ge \<le> n \<and> n \<le> le then Some n else None))"

definition list_field :: "(json \<Rightarrow> 'a option) \<Rightarrow> pydict \<Rightarrow> string \<Rightarrow> 'a list option" where
  "list_field item d k =
     (case map_of d (ascii k) of Some (JArr xs) \<Rightarrow> those (map item xs) | _ \<Rightarrow> None)"

definition validate_condition :: "env \<Rightarrow> json \<Rightarrow> PossibleCondition option" where
  "validate_condition env v =
     (case v of
        JObj d \<Rightarrow>
          (case (str_field env d ''condition'', int_field env 0 100 d ''probability'',
                 str_field env d ''description'') of
             (Some c, Some p, Some t) \<Rightarrow> Some \<lparr>condition = c, probability = p, description = t\<rparr>
           | _ \<Rightarrow> None)
      | _ \<Rightarrow> None)"

definition validate_assessment :: "env \<Rightarrow> json \<Rightarrow> py_exn + SymptomAssessment" where
  "validate_assessment env assessment_data =
     (case assessment_data of
        JObj d \<Rightarrow>
          (case (str_field env d ''assessment_id'', str_field env d ''urgency_level'',
                 int_field env 1 100 d ''urgency_score'',
                 list_field (validate_condition env) d ''possible_conditions'',
                 list_field (coerce_str env) d ''recommended_tests'',
                 list_field (coerce_str env) d ''action_items'',
                 list_field (coerce_str env) d ''warning_signs'',
                 str_field env d ''when_to_seek_care'') of
             (Some i, Some l, Some s, Some c, Some t, Some a, Some w, Some k) \<Rightarrow>
               Inr \<lparr>assessment_id = i, urgency_level = l, urgency_score = s,
                    possible_conditions = c, recommended_tests = t, action_items = a,
                    warning_signs = w, when_to_seek_care = k\<rparr>
           | _ \<Rightarrow> Inl ValidationError)
      | _ \<Rightarrow> Inl TypeError)"

text \<open>Step 6: clean, parse and validate the text of the model.\<close>

definition parse_assessment :: "env \<Rightarrow> pystr \<Rightarrow> py_exn + SymptomAssessment" where
  "parse_assessment env raw_json_text =
     (let raw_json_text = normalize_response raw_json_text in
      case json_loads env raw_json_text of
        None \<Rightarrow> Inl (JSONDecodeError raw_json_text)
      | Some assessment_data \<Rightarrow> validate_assessment env assessment_data)"

text \<open>
  The three handlers of the second \<open>try\<close>. In the handler of \<open>JSONDecodeError\<close>,
  \<open>raw_json_text\<close> is the text that was given to \<open>json.loads\<close>, which the exception carries.
  The last handler also catches the \<open>HTTPException\<close> raised inside the \<open>try\<close>.
\<close>

definition error_keywords :: "pystr list" where
  "error_keywords = [ascii ''quota'', ascii ''api key'', ascii ''authentication'', ascii ''rate limit'']"

definition symptom_handlers :: "env \<Rightarrow> py_exn \<Rightarrow> py_exn" where
  "symptom_handlers env e =
     (case e of
        HTTPStatusError code text \<Rightarrow> HTTPException code (ascii ''OpenRouter API Error: '' @ text)
      | JSONDecodeError raw_json_text \<Rightarrow>
          (let snippet = take 1000 raw_json_text in
           HTTPException 500
             (ascii ''AI returned malformed JSON. Raw response (truncated): '' @ snippet))
      | _ \<Rightarrow>
          (let msg = lower env (str_exn env e) in
           if list_ex (contains msg) error_keywords
           then HTTPException 502
                  (ascii ''OpenRouter API Error: Check your API key or quota. Details: '' @ str_exn env e)
           else HTTPException 500
                  (ascii ''An unexpected error occurred during API call: '' @ str_exn env e)))"

definition symptom_response :: "env \<Rightarrow> json \<Rightarrow> py_exn + SymptomAssessment" where
  "symptom_response env result =
     (case try_bind (extract_raw_json_text env result) (parse_assessment env) of
        Inl e \<Rightarrow> Inl (symptom_handlers env e)
      | Inr assessment \<Rightarrow> Inr assessment)"

definition analyze_symptoms ::
  "env \<Rightarrow> SymptomRequest \<Rightarrow> (py_exn + SymptomAssessment) \<times> request list" where
  "analyze_symptoms env data =
     (case configured_key env of
        None \<Rightarrow> (Inl (HTTPException 502 (ascii ''OpenRouter API Key is not configured in .env'')), [])
      | Some key \<Rightarrow>
          (let new_id = uuid4 env;
               user_prompt = symptom_user_prompt data new_id in
           case symptom_loop env key user_prompt symptom_models_to_try None [] of
             (Inl e, sent) \<Rightarrow> (Inl e, sent)
           | (Inr result, sent) \<Rightarrow> (symptom_response env result, sent)))"

section \<open>reports.py\<close>

definition report_system_prompt :: pystr where
  \<open>report_system_prompt =
     ascii ''You are a medical AI assistant that explains lab reports in simple, patient-friendly language.\<newline>'' @
     ascii ''Analyze the medical report and provide a comprehensive explanation in JSON format.\<newline>'' @
     ascii ''\<newline>'' @
     ascii ''Your response MUST be valid JSON with this exact structure:\<newline>'' @
     ascii ''{\<newline>'' @
     ascii ''  "simple_summary": "2-3 sentence overview in simple language",\<newline>'' @
     ascii ''  "key_findings": ["finding 1", "finding 2", "finding 3"],\<newline>'' @
     ascii ''  "overall_health_score": number (1-100),\<newline>'' @
     ascii ''  "risk_level": "LOW or MODERATE or HIGH",\<newline>'' @
     ascii ''  "concerns": ["concern 1", "concern 2"],\<newline>'' @
     ascii ''  "next_steps": ["step 1", "step 2", "step 3"]\<newline>'' @
     ascii ''}\<newline>'' @
     ascii ''\<newline>'' @
     ascii ''Guidelines:\<newline>'' @
     ascii ''- Use simple, non-technical language\<newline>'' @
     ascii ''- Be compassionate and clear\<newline>'' @
     ascii ''- Focus on actionable insights\<newline>'' @
     ascii ''- Always recommend consulting a doctor for medical decisions\<newline>'' @
     ascii ''- Return ONLY valid JSON, no markdown or extra text''\<close>

text \<open>
  \<open>parsed_summary\<close> is the joined list of the parsed tests, one line each; its lines format
  a float and are taken as given.
\<close>

definition report_user_prompt :: "pystr \<Rightarrow> pystr \<Rightarrow> pystr" where
  "report_user_prompt extracted_text parsed_summary =
     ascii ''Analyze this medical report:\<newline>'' @
     ascii ''\<newline>'' @
     ascii ''EXTRACTED TEXT:\<newline>'' @
     take 2000 extracted_text @ ascii ''\<newline>'' @
     ascii ''\<newline>'' @
     ascii ''PARSED TEST RESULTS:\<newline>'' @
     parsed_summary @ ascii ''\<newline>'' @
     ascii ''\<newline>'' @
     ascii ''Provide your analysis as valid JSON only.''"

definition report_models_to_try :: "pystr list" where
  "report_models_to_try =
     [ascii ''zhipuai/glm-4-plus'', ascii ''zhipuai/glm-4-0520'', ascii ''zhipuai/glm-4'',
      ascii ''openai/gpt-3.5-turbo'']"

definition report_request :: "pystr \<Rightarrow> json \<Rightarrow> pystr \<Rightarrow> request" where
  "report_request key messages model_name =
     \<lparr>req_url = OPENROUTER_BASE_URL @ ascii ''/chat/completions'',
      req_headers = request_headers key ''MediClear Report Analysis'',
      req_json = JObj [(ascii ''model'', JStr model_name),
                      (ascii ''messages'', messages),
                      (ascii ''temperature'', JFloat (7 / 10)),
                      (ascii ''max_tokens'', JInt 1500)],
      req_timeout = 60\<rparr>"

text \<open>
  What one iteration does with a decoded body, still inside the \<open>try\<close>: take the content, clean
  it (\<open>strip\<close> exists on a string only) and parse it.
\<close>

definition report_analysis :: "env \<Rightarrow> json \<Rightarrow> py_exn + json" where
  "report_analysis env result =
     try_bind (first_content result) (\<lambda>content.
       case content of
         JStr raw_content \<Rightarrow>
           (let raw_content = normalize_response raw_content in
            case json_loads env raw_content of
              None \<Rightarrow> Inl (JSONDecodeError raw_content)
            | Some analysis \<Rightarrow> Inr analysis)
       | _ \<Rightarrow> Inl AttributeError)"

text \<open>
  The \<open>try\<close> block of one iteration of \<open>call_glm_for_analysis\<close>, as the \<open>n\<close>-th request of
  the call: the analysis it returns, or the exception it raises.
\<close>

definition report_try :: "env \<Rightarrow> pystr \<Rightarrow> json \<Rightarrow> nat \<Rightarrow> pystr \<Rightarrow> py_exn + json" where
  "report_try env key messages n model_name =
     (case post env n (report_request key messages model_name) of
        Raised e \<Rightarrow> Inl e
      | Body result \<Rightarrow> report_analysis env result)"

text \<open>
  The loop of \<open>call_glm_for_analysis\<close> and the \<open>raise\<close> that follows it. Its three handlers
  (\<open>HTTPStatusError\<close>, \<open>JSONDecodeError\<close>, \<open>Exception\<close>) all store the exception and
  continue.
\<close>

fun report_loop ::
  "env \<Rightarrow> pystr \<Rightarrow> json \<Rightarrow> pystr list \<Rightarrow> py_exn option \<Rightarrow> request list
     \<Rightarrow> (py_exn + json) \<times> request list" where
  "report_loop env key messages [] last_error sent =
     (Inl (HTTPException 500
        (ascii ''All GLM models failed to analyze report. Last error: ''
         @ str_last_error env last_error)), sent)"
| "report_loop env key messages (model_name # models) last_error sent =
     (let sent' = sent @ [report_request key messages model_name] in
      case report_try env key messages (length sent) model_name of
        Inl e \<Rightarrow> report_loop env key messages models (Some e) sent'
      | Inr analysis \<Rightarrow> (Inr analysis, sent'))"

definition call_glm_for_analysis ::
  "env \<Rightarrow> pystr \<Rightarrow> pystr \<Rightarrow> (py_exn + json) \<times> request list" where
  "call_glm_for_analysis env extracted_text parsed_summary =
     (case configured_key env of
        None \<Rightarrow> (Inl (HTTPException 500 (ascii ''OPENROUTER_API_KEY not configured'')), [])
      | Some key \<Rightarrow>
          (let messages = JArr [message ''system'' report_system_prompt,
                                message ''user'' (report_user_prompt extracted_text parsed_summary)]
           in report_loop env key messages report_models_to_try None []))"

subsection \<open>The local database\<close>

text \<open>
  The JSON file holds a dict of two lists of dicts. \<open>db_file\<close> is what \<open>json.load\<close> reads
  from it, \<open>None\<close> when the file is missing or does not parse; \<open>writable\<close> tells whether
  \<open>save_database\<close> can write it. The identifiers the code stores are strings, and Python's
  \<open>!=\<close> on them is inequality of the values.
\<close>

record database =
  medical_records :: "pydict list"
  report_explanations :: "pydict list"

record storage =
  db_file :: "database option"
  writable :: bool

definition load_database :: "storage \<Rightarrow> database" where
  "load_database st =
     (case db_file st of
        Some db \<Rightarrow> db
      | None \<Rightarrow> \<lparr>medical_records = [], report_explanations = []\<rparr>)"

definition save_database :: "storage \<Rightarrow> database \<Rightarrow> py_exn + storage" where
  "save_database st data = (if writable st then Inr (st\<lparr>db_file := Some data\<rparr>) else Inl OSError)"

text \<open>
  \<open>insert_explanation\<close>. The comprehension reads \<open>explanation_data["record_id"]\<close> once for
  each stored explanation, so a missing key raises only when there is one.
\<close>

definition insert_explanation :: "storage \<Rightarrow> pydict \<Rightarrow> py_exn + pydict \<times> storage" where
  "insert_explanation st explanation_data =
     (let db = load_database st in
      case map_of explanation_data (ascii ''record_id'') of
        None \<Rightarrow>
          if report_explanations db = []
          then try_bind (save_database st (db\<lparr>report_explanations := [explanation_data]\<rparr>))
                 (\<lambda>st'. Inr (explanation_data, st'))
          else Inl (KeyError (JStr (ascii ''record_id'')))
      | Some record_id \<Rightarrow>
          (let kept = filter (\<lambda>exp. dict_get exp (ascii ''record_id'') \<noteq> record_id)
                        (report_explanations db)
           in try_bind (save_database st (db\<lparr>report_explanations := kept @ [explanation_data]\<rparr>))
                (\<lambda>st'. Inr (explanation_data, st'))))"

section \<open>Concrete environments\<close>

text \<open>
  Small environments on which the definitions above can be run. The network answers from a
  script, request by request, and times out once the script is used up; the parser knows the
  empty object only; the case mapping is the one of ASCII.
\<close>

definition completion :: "json \<Rightarrow> json" where
  "completion content =
     JObj [(ascii ''choices'',
            JArr [JObj [(ascii ''message'',
                         JObj [(ascii ''role'', JStr (ascii ''assistant'')),
                               (ascii ''content'', content)])]])]"

definition timed_out :: py_exn where
  "timed_out = RequestError (ascii ''timed out'')"

definition scripted :: "http_outcome list \<Rightarrow> nat \<Rightarrow> request \<Rightarrow> http_outcome" where
  "scripted outcomes n req = (if n < length outcomes then outcomes ! n else Raised timed_out)"

definition ascii_lower :: "pystr \<Rightarrow> pystr" where
  "ascii_lower s = map (\<lambda>c. if 65 \<le> c \<and> c \<le> 90 then c + 32 else c) s"

definition demo_env :: "pystr option \<Rightarrow> http_outcome list \<Rightarrow> env" where
  "demo_env key outcomes =
     \<lparr>OPENROUTER_API_KEY = key,
      post = scripted outcomes,
      json_loads = (\<lambda>s. if s = ascii ''{}'' then Some (JObj []) else None),
      str_exn = (\<lambda>e. case e of RequestError s \<Rightarrow> s | _ \<Rightarrow> ascii ''error''),
      str_json = (\<lambda>v. ascii ''...''),
      lower = ascii_lower,
      isdigit = (\<lambda>c. 48 \<le> c \<and> c \<le> 57),
      uuid4 = ascii ''123e4567-e89b-42d3-a456-426614174000'',
      coerce_str = (\<lambda>v. case v of JStr s \<Rightarrow> Some s | _ \<Rightarrow> None),
      coerce_int = (\<lambda>v. case v of JInt i \<Rightarrow> Some i | _ \<Rightarrow> None)\<rparr>"

definition demo_key :: pystr where
  "demo_key = ascii ''sk-or-demo''"

definition demo_request :: SymptomRequest where
  "demo_request =
     \<lparr>symptoms = ascii ''fever'', age = 30, gender = ascii ''F'',
      duration = ascii ''2 days'', severity = 5\<rparr>"

section \<open>Properties\<close>

subsection \<open>Stripping and the clean-up of a response\<close>

lemma dropWhile_self: "xs = [] \<or> \<not> P (hd xs) \<Longrightarrow> dropWhile P xs = xs"
  by (cases xs) auto

lemma last_dropWhile: "dropWhile P xs \<noteq> [] \<Longrightarrow> last (dropWhile P xs) = last xs"
  by (induction xs) (auto split: if_splits)

lemma strip_unspaced:
  assumes "s = [] \<or> (\<not> isspace (hd s) \<and> \<not> isspace (last s))"
  shows "strip s = s"
proof (cases "s = []")
  case True
  then show ?thesis by (simp add: strip_def lstrip_def rstrip_def)
next
  case False
  with assms have h: "\<not> isspace (hd s)" and l: "\<not> isspace (last s)" by auto
  from False l have "dropWhile isspace (rev s) = rev s"
    by (intro dropWhile_self) (simp add: hd_rev)
  then have "rstrip s = s" by (simp add: rstrip_def)
  moreover from h have "lstrip s = s"
    unfolding lstrip_def by (intro dropWhile_self) simp
  ultimately show ?thesis by (simp add: strip_def)
qed

lemma strip_ends:
  "strip s = [] \<or> (\<not> isspace (hd (strip s)) \<and> \<not> isspace (last (strip s)))"
proof (cases "strip s = []")
  case True
  then show ?thesis by simp
next
  case False
  define t where "t = rstrip s"
  have u: "strip s = dropWhile isspace t" by (simp add: strip_def lstrip_def t_def)
  with False have ne: "dropWhile isspace t \<noteq> []" by simp
  then have t_ne: "t \<noteq> []" by auto
  have "\<not> isspace (hd (strip s))" using ne unfolding u by (rule hd_dropWhile)
  moreover have "last (strip s) = last t" unfolding u using ne by (rule last_dropWhile)
  moreover have "\<not> isspace (last t)"
  proof -
    from t_ne have d: "dropWhile isspace (rev s) \<noteq> []" by (simp add: t_def rstrip_def)
    then have "\<not> isspace (hd (dropWhile isspace (rev s)))" by (rule hd_dropWhile)
    with d show ?thesis by (simp add: t_def rstrip_def last_rev)
  qed
  ultimately show ?thesis by simp
qed

lemma strip_strip: "strip (strip s) = strip s"
  by (rule strip_unspaced) (rule strip_ends)

lemma normalize_response_unfenced:
  "\<not> startswith (strip raw) (ascii ''```'') \<Longrightarrow> normalize_response raw = raw"
  by (simp add: normalize_response_def)

lemma strip_normalize_response:
  "startswith (strip raw) (ascii ''```'') \<Longrightarrow> strip (normalize_response raw) = normalize_response raw"
  by (simp add: normalize_response_def Let_def strip_strip)

lemma normalize_response_twice:
  assumes "\<not> startswith (normalize_response raw) (ascii ''```'')"
  shows "normalize_response (normalize_response raw) = normalize_response raw"
proof (cases "startswith (strip raw) (ascii ''```'')")
  case True
  then have "strip (normalize_response raw) = normalize_response raw"
    by (rule strip_normalize_response)
  with assms show ?thesis by (simp add: normalize_response_unfenced)
next
  case False
  then show ?thesis by (simp add: normalize_response_unfenced)
qed

lemma isspace_10: "isspace 10" and not_isspace_96: "\<not> isspace 96"
  by (simp_all add: isspace_def)

lemma startswith_append: "startswith (p @ xs) p"
  by (simp add: startswith_def)

lemma endswith_append: "endswith (xs @ p) p"
  by (simp add: endswith_def)

lemma strip_newlines:
  assumes "strip p = p"
  shows "strip (10 # p @ [10]) = p"
proof (cases "p = []")
  case True
  then show ?thesis by (simp add: strip_def lstrip_def rstrip_def isspace_10)
next
  case False
  from strip_ends [of p] assms False
  have h: "\<not> isspace (hd p)" and l: "\<not> isspace (last p)" by auto
  from False l have "dropWhile isspace (rev p @ [10]) = rev p @ [10]"
    by (intro dropWhile_self) (simp add: hd_append hd_rev)
  then have "rstrip (10 # p @ [10]) = 10 # p"
    by (simp add: rstrip_def isspace_10)
  moreover from False h have "dropWhile isspace p = p"
    by (intro dropWhile_self) simp
  ultimately show ?thesis by (simp add: strip_def lstrip_def isspace_10)
qed

lemma normalize_response_fenced_json:
  assumes "strip p = p"
  shows \<open>normalize_response (ascii ''```json\<newline>'' @ p @ ascii ''\<newline>```'') = p\<close>
proof -
  let ?fence = "ascii ''```''"
  let ?raw = "(ascii ''```json'' @ 10 # p @ [10]) @ ?fence"
  have raw: \<open>ascii ''```json\<newline>'' @ p @ ascii ''\<newline>```'' = ?raw\<close>
    by (simp add: ascii_def)
  have "strip ?raw = ?raw"
    by (rule strip_unspaced) (simp add: ascii_def not_isspace_96)
  moreover have "startswith ?raw ?fence"
    by (simp add: startswith_def ascii_def)
  moreover have "startswith ?raw (ascii ''```json'')"
    by (simp add: startswith_def ascii_def)
  moreover have "drop 7 ?raw = (10 # p @ [10]) @ ?fence"
    by (simp add: ascii_def)
  moreover have "endswith ((10 # p @ [10]) @ ?fence) ?fence"
    by (rule endswith_append)
  moreover have "take (length ((10 # p @ [10]) @ ?fence) - 3) ((10 # p @ [10]) @ ?fence) = 10 # p @ [10]"
    by (simp add: ascii_def)
  ultimately have "normalize_response ?raw = strip (10 # p @ [10])"
    by (simp only: normalize_response_def Let_def if_True)
  with assms show ?thesis by (simp only: raw strip_newlines)
qed

subsection \<open>The three loops\<close>

lemma chat_loop_skip:
  assumes "\<forall>i<length pre. chat_try env key messages (length sent + i) (pre ! i) = Inl (errs i)"
  shows "chat_loop env key messages (pre @ rest) last_error sent =
           chat_loop env key messages rest
             (if pre = [] then last_error else Some (errs (length pre - 1)))
             (sent @ map (chat_request key messages) pre)"
  using assms
proof (induction pre arbitrary: last_error sent errs)
  case Nil
  then show ?case by simp
next
  case (Cons m pre)
  from Cons.prems have first: "chat_try env key messages (length sent) m = Inl (errs 0)"
    by force
  have later: "\<forall>i<length pre.
      chat_try env key messages (length (sent @ [chat_request key messages m]) + i) (pre ! i)
        = Inl ((errs \<circ> Suc) i)"
  proof (intro allI impI)
    fix i assume "i < length pre"
    with Cons.prems have
      "chat_try env key messages (length sent + Suc i) ((m # pre) ! Suc i) = Inl (errs (Suc i))"
      by (metis Suc_less_eq length_Cons)
    then show "chat_try env key messages (length (sent @ [chat_request key messages m]) + i) (pre ! i)
        = Inl ((errs \<circ> Suc) i)"
      by simp
  qed
  show ?case
    using first Cons.IH [OF later, of "Some (errs 0)"]
    by (cases "pre = []") (simp_all add: Let_def)
qed

lemma symptom_loop_skip:
  assumes "\<forall>i<length pre. symptom_try env key up (length sent + i) (pre ! i) = Inl (errs i)"
  shows "symptom_loop env key up (pre @ rest) last_error sent =
           symptom_loop env key up rest
             (if pre = [] then last_error else Some (errs (length pre - 1)))
             (sent @ map (symptom_request env key up) pre)"
  using assms
proof (induction pre arbitrary: last_error sent errs)
  case Nil
  then show ?case by simp
next
  case (Cons m pre)
  from Cons.prems have first: "symptom_try env key up (length sent) m = Inl (errs 0)"
    by force
  have later: "\<forall>i<length pre.
      symptom_try env key up (length (sent @ [symptom_request env key up m]) + i) (pre ! i)
        = Inl ((errs \<circ> Suc) i)"
  proof (intro allI impI)
    fix i assume "i < length pre"
    with Cons.prems have
      "symptom_try env key up (length sent + Suc i) ((m # pre) ! Suc i) = Inl (errs (Suc i))"
      by (metis Suc_less_eq length_Cons)
    then show "symptom_try env key up (length (sent @ [symptom_request env key up m]) + i) (pre ! i)
        = Inl ((errs \<circ> Suc) i)"
      by simp
  qed
  show ?case
    using first Cons.IH [OF later, of "Some (errs 0)"]
    by (cases "pre = []") (simp_all add: Let_def)
qed

lemma report_loop_skip:
  assumes "\<forall>i<length pre. report_try env key messages (length sent + i) (pre ! i) = Inl (errs i)"
  shows "report_loop env key messages (pre @ rest) last_error sent =
           report_loop env key messages rest
             (if pre = [] then last_error else Some (errs (length pre - 1)))
             (sent @ map (report_request key messages) pre)"
  using assms
proof (induction pre arbitrary: last_error sent errs)
  case Nil
  then show ?case by simp
next
  case (Cons m pre)
  from Cons.prems have first: "report_try env key messages (length sent) m = Inl (errs 0)"
    by force
  have later: "\<forall>i<length pre.
      report_try env key messages (length (sent @ [report_request key messages m]) + i) (pre ! i)
        = Inl ((errs \<circ> Suc) i)"
  proof (intro allI impI)
    fix i assume "i < length pre"
    with Cons.prems have
      "report_try env key messages (length sent + Suc i) ((m # pre) ! Suc i) = Inl (errs (Suc i))"
      by (metis Suc_less_eq length_Cons)
    then show "report_try env key messages (length (sent @ [report_request key messages m]) + i) (pre ! i)
        = Inl ((errs \<circ> Suc) i)"
      by simp
  qed
  show ?case
    using first Cons.IH [OF later, of "Some (errs 0)"]
    by (cases "pre = []") (simp_all add: Let_def)
qed


lemma symptom_loop_first_success:
  assumes "\<forall>i<length pre. symptom_try env key up i (pre ! i) = Inl (errs i)"
    and "symptom_try env key up (length pre) m = Inr result"
  shows "symptom_loop env key up (pre @ m # rest) None [] =
           (Inr result, map (symptom_request env key up) (pre @ [m]))"
proof -
  from assms(1) have "symptom_loop env key up (pre @ m # rest) None [] =
      symptom_loop env key up (m # rest)
        (if pre = [] then None else Some (errs (length pre - 1)))
        ([] @ map (symptom_request env key up) pre)"
    by (intro symptom_loop_skip) simp
  with assms(2) show ?thesis by (simp add: Let_def)
qed

lemma chat_loop_exhausted:
  assumes "\<forall>i<length models. chat_try env key messages i (models ! i) = Inl (errs i)"
  shows "chat_loop env key messages models None [] =
           (Inl (HTTPException 500
              (ascii ''All GLM models failed. Last error: '' @
               str_last_error env
                 (if models = [] then None else Some (errs (length models - 1))))),
            map (chat_request key messages) models)"
  using chat_loop_skip [of models env key messages "[]" errs "[]" None] assms by simp

lemma symptom_loop_exhausted:
  assumes "\<forall>i<length models. symptom_try env key up i (models ! i) = Inl (errs i)"
  shows "symptom_loop env key up models None [] =
           (Inl (HTTPException 500
              (ascii ''All GLM models failed. Please check your API key. Last error: '' @
               str_last_error env
                 (if models = [] then None else Some (errs (length models - 1))))),
            map (symptom_request env key up) models)"
  using symptom_loop_skip [of models env key up "[]" errs "[]" None] assms by simp

text \<open>
  What step 5 of \<open>analyze_symptoms\<close> takes from a body is the content of its first
  completion, when that is a string.
\<close>

lemma extract_raw_json_text_content:
  assumes "first_content result = Inr (JStr raw)"
  shows "extract_raw_json_text env result = Inr raw"
proof -
  from assms obtain d where d: "result = JObj d"
    by (cases result) (simp_all add: first_content_def try_bind_def)
  from assms d obtain choices where c: "map_of d (ascii ''choices'') = Some choices"
    by (cases "map_of d (ascii ''choices'')") (simp_all add: first_content_def try_bind_def)
  from assms d c obtain choice where g: "getitem_0 choices = Inr choice"
    by (cases "getitem_0 choices") (simp_all add: first_content_def try_bind_def)
  from assms d c g obtain cd where cd: "choice = JObj cd"
    by (cases choice) (simp_all add: first_content_def try_bind_def)
  from g cd obtain xs where xs: "choices = JArr (JObj cd # xs)"
    by (cases choices rule: getitem_0.cases) simp_all
  from assms d c xs show ?thesis
    by (simp add: extract_raw_json_text_def try_bind_def Let_def)
qed

subsection \<open>Running the concrete environments\<close>


lemma demo_env_simps:
  "OPENROUTER_API_KEY (demo_env key outcomes) = key"
  "post (demo_env key outcomes) = scripted outcomes"
  "json_loads (demo_env key outcomes) = (\<lambda>s. if s = ascii ''{}'' then Some (JObj []) else None)"
  "str_exn (demo_env key outcomes) = (\<lambda>e. case e of RequestError s \<Rightarrow> s | _ \<Rightarrow> ascii ''error'')"
  "lower (demo_env key outcomes) = ascii_lower"
  "uuid4 (demo_env key outcomes) = ascii ''123e4567-e89b-42d3-a456-426614174000''"
  "coerce_str (demo_env key outcomes) = (\<lambda>v. case v of JStr s \<Rightarrow> Some s | _ \<Rightarrow> None)"
  "coerce_int (demo_env key outcomes) = (\<lambda>v. case v of JInt i \<Rightarrow> Some i | _ \<Rightarrow> None)"
  by (simp_all add: demo_env_def)

lemma first_content_completion: "first_content (completion c) = Inr c"
  by (simp add: first_content_def completion_def try_bind_def ascii_def)

lemma normalize_response_plain_object: "normalize_response (ascii ''{}'') = ascii ''{}''"
  by (simp add: normalize_response_def ascii_def strip_def lstrip_def rstrip_def isspace_def
      startswith_def)

subsection \<open>The fallback loops\<close>



text \<open>
  Claim C2. Whatever the list of models, when the attempt on every model raises, the loop
  sends one request for each model, in the order of the list and none twice, and then raises
  an \<open>HTTPException\<close> with status 500 whose detail is a fixed sentence followed by the
  text of the exception of the last attempt alone; the exceptions before it are dropped.
  (With no model at all the detail ends in \<open>None\<close>.)
\<close>

theorem fallback_exhausted:
  "((\<forall>i<length models. chat_try env key messages i (models ! i) = Inl (errs i)) \<longrightarrow>
      chat_loop env key messages models None [] =
        (Inl (HTTPException 500
           (ascii ''All GLM models failed. Last error: '' @
            str_last_error env (if models = [] then None else Some (errs (length models - 1))))),
         map (chat_request key messages) models)) \<and>
   ((\<forall>i<length models. symptom_try env key up i (models ! i) = Inl (errs i)) \<longrightarrow>
      symptom_loop env key up models None [] =
        (Inl (HTTPException 500
           (ascii ''All GLM models failed. Please check your API key. Last error: '' @
            str_last_error env (if models = [] then None else Some (errs (length models - 1))))),
         map (symptom_request env key up) models))"
proof (intro conjI impI)
  assume "\<forall>i<length models. chat_try env key messages i (models ! i) = Inl (errs i)"
  then show "chat_loop env key messages models None [] =
      (Inl (HTTPException 500
         (ascii ''All GLM models failed. Last error: '' @
          str_last_error env (if models = [] then None else Some (errs (length models - 1))))),
       map (chat_request key messages) models)"
    by (rule chat_loop_exhausted)
next
  assume "\<forall>i<length models. symptom_try env key up i (models ! i) = Inl (errs i)"
  then show "symptom_loop env key up models None [] =
      (Inl (HTTPException 500
         (ascii ''All GLM models failed. Please check your API key. Last error: '' @
          str_last_error env (if models = [] then None else Some (errs (length models - 1))))),
       map (symptom_request env key up) models)"
    by (rule symptom_loop_exhausted)
qed

theorem fallback_exhausted_witness:
  "call_glm_model
     (demo_env (Some demo_key)
        [Raised (HTTPStatusError 404 (ascii ''no such model'')),
         Raised (HTTPStatusError 429 (ascii ''rate limited''))])
     (JArr [message ''user'' (ascii ''Hi'')]) =
   (Inl (HTTPException 500 (ascii ''All GLM models failed. Last error: timed out'')),
    map (chat_request demo_key (JArr [message ''user'' (ascii ''Hi'')])) chat_models_to_try) \<and>
   analyze_symptoms (demo_env (Some demo_key) []) demo_request =
   (Inl (HTTPException 500
      (ascii ''All GLM models failed. Please check your API key. Last error: timed out'')),
    map (symptom_request (demo_env (Some demo_key) []) demo_key
           (symptom_user_prompt demo_request (uuid4 (demo_env (Some demo_key) []))))
      symptom_models_to_try)"
proof -
  let ?msgs = "JArr [message ''user'' (ascii ''Hi'')]"
  let ?outcomes = "[Raised (HTTPStatusError 404 (ascii ''no such model'')),
         Raised (HTTPStatusError 429 (ascii ''rate limited''))]"
  let ?env = "demo_env (Some demo_key) ?outcomes"
  let ?env' = "demo_env (Some demo_key) []"
  let ?up = "symptom_user_prompt demo_request (uuid4 ?env')"
  let ?errs = "\<lambda>i. if i < 2 then (case ?outcomes ! i of Raised e \<Rightarrow> e) else timed_out"
  have k: "configured_key ?env = Some demo_key" "configured_key ?env' = Some demo_key"
    by (simp_all add: configured_key_def demo_env_simps demo_key_def ascii_def)
  have f: "\<forall>i<length chat_models_to_try.
      chat_try ?env demo_key ?msgs i (chat_models_to_try ! i) = Inl (?errs i)"
    by (simp add: chat_try_def demo_env_simps scripted_def less_Suc_eq)
  have f': "\<forall>i<length symptom_models_to_try.
      symptom_try ?env' demo_key ?up i (symptom_models_to_try ! i) = Inl timed_out"
    by (simp add: symptom_try_def demo_env_simps scripted_def)
  have n: "chat_models_to_try \<noteq> []" "length chat_models_to_try = 5"
    "symptom_models_to_try \<noteq> []"
    by (simp_all add: chat_models_to_try_def symptom_models_to_try_def)
  have msg: "str_last_error ?env (Some timed_out) = ascii ''timed out''"
    "str_last_error ?env' (Some timed_out) = ascii ''timed out''"
    by (simp_all add: str_last_error_def demo_env_simps timed_out_def)
  from fallback_exhausted [where models = chat_models_to_try and env = ?env and key = demo_key
      and messages = ?msgs and errs = ?errs, THEN conjunct1] f
  have "chat_loop ?env demo_key ?msgs chat_models_to_try None [] =
      (Inl (HTTPException 500 (ascii ''All GLM models failed. Last error: '' @ ascii ''timed out'')),
       map (chat_request demo_key ?msgs) chat_models_to_try)"
    by (simp add: n msg)
  moreover
  from fallback_exhausted [where models = symptom_models_to_try and env = ?env' and key = demo_key
      and up = ?up and errs = "\<lambda>i. timed_out", THEN conjunct2] f'
  have "symptom_loop ?env' demo_key ?up symptom_models_to_try None [] =
      (Inl (HTTPException 500
         (ascii ''All GLM models failed. Please check your API key. Last error: '' @
          ascii ''timed out'')),
       map (symptom_request ?env' demo_key ?up) symptom_models_to_try)"
    by (simp add: n msg)
  moreover have
    "ascii ''All GLM models failed. Last error: '' @ ascii ''timed out'' =
       ascii ''All GLM models failed. Last error: timed out''"
    "ascii ''All GLM models failed. Please check your API key. Last error: '' @ ascii ''timed out'' =
       ascii ''All GLM models failed. Please check your API key. Last error: timed out''"
    by (simp_all add: ascii_def)
  ultimately show ?thesis
    by (simp add: call_glm_model_def analyze_symptoms_def k Let_def)
qed

subsection \<open>Text that does not parse\<close>

lemma symptom_response_malformed:
  assumes "first_content result = Inr (JStr raw)"
    and "json_loads env (normalize_response raw) = None"
  shows "symptom_response env result =
           Inl (HTTPException 500
             (ascii ''AI returned malformed JSON. Raw response (truncated): ''
              @ take 1000 (normalize_response raw)))"
  using assms
  by (simp add: symptom_response_def extract_raw_json_text_content try_bind_def
      parse_assessment_def Let_def symptom_handlers_def)

lemma report_try_malformed:
  assumes "post env n (report_request key messages m) = Body result"
    and "first_content result = Inr (JStr raw)"
    and "json_loads env (normalize_response raw) = None"
  shows "report_try env key messages n m = Inl (JSONDecodeError (normalize_response raw))"
  using assms by (simp add: report_try_def report_analysis_def try_bind_def Let_def)

lemma report_loop_first_success:
  assumes "\<forall>i<length pre. report_try env key messages i (pre ! i) = Inl (errs i)"
    and "report_try env key messages (length pre) m = Inr analysis"
  shows "report_loop env key messages (pre @ m # rest) None [] =
           (Inr analysis, map (report_request key messages) (pre @ [m]))"
proof -
  from assms(1) have "report_loop env key messages (pre @ m # rest) None [] =
      report_loop env key messages (m # rest)
        (if pre = [] then None else Some (errs (length pre - 1)))
        ([] @ map (report_request key messages) pre)"
    by (intro report_loop_skip) simp
  with assms(2) show ?thesis by (simp add: Let_def)
qed

lemma report_loop_after_malformed:
  assumes "\<forall>i<length pre. report_try env key messages i (pre ! i) = Inl (errs i)"
    and "report_try env key messages (length pre) m = Inl e"
  shows "report_loop env key messages (pre @ m # rest) None [] =
           report_loop env key messages rest (Some e)
             (map (report_request key messages) (pre @ [m]))"
proof -
  have "\<forall>i<length (pre @ [m]).
      report_try env key messages (length ([]::request list) + i) ((pre @ [m]) ! i)
        = Inl ((\<lambda>i. if i < length pre then errs i else e) i)"
    using assms by (auto simp: nth_append less_Suc_eq)
  from report_loop_skip [OF this, of rest None] show ?thesis by simp
qed

text \<open>
  Claim C3, as amended. In \<open>analyze_symptoms\<close> the first attempt that raises nothing ends
  the loop: no further model is tried, and when the content of its first completion is a text
  that does not parse, the request ends in an \<open>HTTPException\<close> with status 500 whose detail
  quotes the first 1000 characters of the cleaned text. In \<open>call_glm_for_analysis\<close> the
  parsing is inside the \<open>try\<close> of the loop: a text that does not parse counts as a failure
  of that model, the \<open>JSONDecodeError\<close> becomes \<open>last_error\<close> and the next model is tried;
  the loop ends at the first model whose text parses, and tries no model after it.
\<close>

theorem malformed_output_by_caller:
  "((\<forall>i<length pre. symptom_try env key up i (pre ! i) = Inl (errs i)) \<and>
    symptom_try env key up (length pre) m = Inr result \<and>
    first_content result = Inr (JStr raw) \<and>
    json_loads env (normalize_response raw) = None \<longrightarrow>
      symptom_loop env key up (pre @ m # rest) None [] =
        (Inr result, map (symptom_request env key up) (pre @ [m])) \<and>
      symptom_response env result =
        Inl (HTTPException 500
          (ascii ''AI returned malformed JSON. Raw response (truncated): ''
           @ take 1000 (normalize_response raw)))) \<and>
   ((\<forall>i<length pre. report_try env key messages i (pre ! i) = Inl (errs i)) \<and>
    post env (length pre) (report_request key messages m) = Body result \<and>
    first_content result = Inr (JStr raw) \<and>
    json_loads env (normalize_response raw) = None \<longrightarrow>
      report_loop env key messages (pre @ m # rest) None [] =
        report_loop env key messages rest (Some (JSONDecodeError (normalize_response raw)))
          (map (report_request key messages) (pre @ [m]))) \<and>
   ((\<forall>i<length pre. report_try env key messages i (pre ! i) = Inl (errs i)) \<and>
    report_try env key messages (length pre) m = Inr analysis \<longrightarrow>
      report_loop env key messages (pre @ m # rest) None [] =
        (Inr analysis, map (report_request key messages) (pre @ [m])))"
proof (intro conjI impI; (elim conjE)?)
  assume "\<forall>i<length pre. symptom_try env key up i (pre ! i) = Inl (errs i)"
    and "symptom_try env key up (length pre) m = Inr result"
  then show "symptom_loop env key up (pre @ m # rest) None [] =
      (Inr result, map (symptom_request env key up) (pre @ [m]))"
    by (rule symptom_loop_first_success)
next
  assume "first_content result = Inr (JStr raw)"
    and "json_loads env (normalize_response raw) = None"
  then show "symptom_response env result =
      Inl (HTTPException 500
        (ascii ''AI returned malformed JSON. Raw response (truncated): ''
         @ take 1000 (normalize_response raw)))"
    by (rule symptom_response_malformed)
next
  assume fails: "\<forall>i<length pre. report_try env key messages i (pre ! i) = Inl (errs i)"
    and "post env (length pre) (report_request key messages m) = Body result"
    and "first_content result = Inr (JStr raw)"
    and "json_loads env (normalize_response raw) = None"
  then have "report_try env key messages (length pre) m
      = Inl (JSONDecodeError (normalize_response raw))"
    by (intro report_try_malformed)
  with fails show "report_loop env key messages (pre @ m # rest) None [] =
      report_loop env key messages rest (Some (JSONDecodeError (normalize_response raw)))
        (map (report_request key messages) (pre @ [m]))"
    by (rule report_loop_after_malformed)
next
  assume "\<forall>i<length pre. report_try env key messages i (pre ! i) = Inl (errs i)"
    and "report_try env key messages (length pre) m = Inr analysis"
  then show "report_loop env key messages (pre @ m # rest) None [] =
      (Inr analysis, map (report_request key messages) (pre @ [m]))"
    by (rule report_loop_first_success)
qed

theorem malformed_output_by_caller_witness:
  "symptom_loop
     (demo_env (Some demo_key)
        [Body (completion (JStr (ascii ''not json''))), Body (completion (JStr (ascii ''{}'')))])
     demo_key [] symptom_models_to_try None [] =
     (Inr (completion (JStr (ascii ''not json''))),
      [symptom_request
         (demo_env (Some demo_key)
            [Body (completion (JStr (ascii ''not json''))), Body (completion (JStr (ascii ''{}'')))])
         demo_key [] (ascii ''zhipuai/glm-4-plus'')]) \<and>
   symptom_response
     (demo_env (Some demo_key)
        [Body (completion (JStr (ascii ''not json''))), Body (completion (JStr (ascii ''{}'')))])
     (completion (JStr (ascii ''not json''))) =
     Inl (HTTPException 500
       (ascii ''AI returned malformed JSON. Raw response (truncated): not json'')) \<and>
   report_loop
     (demo_env (Some demo_key)
        [Body (completion (JStr (ascii ''not json''))), Body (completion (JStr (ascii ''{}'')))])
     demo_key (JArr []) report_models_to_try None [] =
     (Inr (JObj []),
      [report_request demo_key (JArr []) (ascii ''zhipuai/glm-4-plus''),
       report_request demo_key (JArr []) (ascii ''zhipuai/glm-4-0520'')])"
proof -
  let ?raw = "ascii ''not json''"
  let ?env = "demo_env (Some demo_key)
    [Body (completion (JStr ?raw)), Body (completion (JStr (ascii ''{}'')))]"
  let ?m1 = "ascii ''zhipuai/glm-4-plus''"
  let ?m2 = "ascii ''zhipuai/glm-4-0520''"
  let ?rest = "[ascii ''zhipuai/glm-4'', ascii ''openai/gpt-3.5-turbo'']"
  have norm: "normalize_response ?raw = ?raw"
    by (simp add: normalize_response_def ascii_def strip_def lstrip_def rstrip_def isspace_def
        startswith_def)
  have unparsed: "json_loads ?env (normalize_response ?raw) = None"
    unfolding norm by (simp add: demo_env_simps ascii_def)
  have parsed: "json_loads ?env (normalize_response (ascii ''{}'')) = Some (JObj [])"
    by (simp add: normalize_response_plain_object demo_env_simps)
  have post0: "\<And>req. post ?env 0 req = Body (completion (JStr ?raw))"
    by (simp add: demo_env_simps scripted_def)
  have post1: "\<And>req. post ?env (Suc 0) req = Body (completion (JStr (ascii ''{}'')))"
    by (simp add: demo_env_simps scripted_def)
  have s0: "symptom_try ?env demo_key [] 0 ?m1 = Inr (completion (JStr ?raw))"
    by (simp add: symptom_try_def post0)
  have r1: "report_try ?env demo_key (JArr []) (Suc 0) ?m2 = Inr (JObj [])"
    by (simp add: report_try_def post1 report_analysis_def first_content_completion
        try_bind_def parsed Let_def)
  have r0: "report_try ?env demo_key (JArr []) 0 ?m1 = Inl (JSONDecodeError ?raw)"
    using unparsed
    by (simp add: report_try_def post0 report_analysis_def first_content_completion
        try_bind_def Let_def norm)
  note first = malformed_output_by_caller
    [where pre = "[]" and env = ?env and key = demo_key and up = "[]" and m = ?m1
       and result = "completion (JStr ?raw)" and raw = ?raw and rest = "?m2 # ?rest"
       and messages = "JArr []" and analysis = "JObj []"]
  note second = malformed_output_by_caller
    [where pre = "[?m1]" and env = ?env and key = demo_key and up = "[]" and m = ?m2
       and result = "completion (JStr ?raw)" and raw = ?raw and rest = ?rest
       and messages = "JArr []" and analysis = "JObj []"
       and errs = "\<lambda>i. JSONDecodeError ?raw"]
  have a: "symptom_loop ?env demo_key [] (?m1 # ?m2 # ?rest) None [] =
      (Inr (completion (JStr ?raw)), [symptom_request ?env demo_key [] ?m1]) \<and>
    symptom_response ?env (completion (JStr ?raw)) =
      Inl (HTTPException 500
        (ascii ''AI returned malformed JSON. Raw response (truncated): ''
         @ take 1000 (normalize_response ?raw)))"
    using first [THEN conjunct1] s0 first_content_completion unparsed by simp
  have b: "report_loop ?env demo_key (JArr []) (?m1 # ?m2 # ?rest) None [] =
      (Inr (JObj []), [report_request demo_key (JArr []) ?m1,
                       report_request demo_key (JArr []) ?m2])"
    using second [THEN conjunct2, THEN conjunct2] r0 r1 by simp
  have msg: "ascii ''AI returned malformed JSON. Raw response (truncated): '' @ take 1000 ?raw
      = ascii ''AI returned malformed JSON. Raw response (truncated): not json''"
    by (simp add: ascii_def)
  from a b show ?thesis
    by (simp add: symptom_models_to_try_def report_models_to_try_def norm msg)
qed

text \<open>
  Claim C3 as it was stated does not hold of \<open>call_glm_for_analysis\<close>: the first request
  is answered with a text that does not parse, and the call sends a second request, to the next
  model, and returns what that one gave.
\<close>

theorem report_retries_after_malformed_json:
  "post (demo_env (Some demo_key)
           [Body (completion (JStr (ascii ''not json''))), Body (completion (JStr (ascii ''{}'')))])
     0 (report_request demo_key
          (JArr [message ''system'' report_system_prompt,
                 message ''user'' (report_user_prompt (ascii ''Hb 13.5'') [])])
          (ascii ''zhipuai/glm-4-plus''))
     = Body (completion (JStr (ascii ''not json''))) \<and>
   json_loads (demo_env (Some demo_key)
           [Body (completion (JStr (ascii ''not json''))), Body (completion (JStr (ascii ''{}'')))])
     (normalize_response (ascii ''not json'')) = None \<and>
   call_glm_for_analysis
     (demo_env (Some demo_key)
        [Body (completion (JStr (ascii ''not json''))), Body (completion (JStr (ascii ''{}'')))])
     (ascii ''Hb 13.5'') [] =
     (Inr (JObj []),
      [report_request demo_key
         (JArr [message ''system'' report_system_prompt,
                message ''user'' (report_user_prompt (ascii ''Hb 13.5'') [])])
         (ascii ''zhipuai/glm-4-plus''),
       report_request demo_key
         (JArr [message ''system'' report_system_prompt,
                message ''user'' (report_user_prompt (ascii ''Hb 13.5'') [])])
         (ascii ''zhipuai/glm-4-0520'')])"
proof -
  let ?raw = "ascii ''not json''"
  let ?env = "demo_env (Some demo_key)
    [Body (completion (JStr ?raw)), Body (completion (JStr (ascii ''{}'')))]"
  let ?msgs = "JArr [message ''system'' report_system_prompt,
                     message ''user'' (report_user_prompt (ascii ''Hb 13.5'') [])]"
  let ?m1 = "ascii ''zhipuai/glm-4-plus''"
  let ?m2 = "ascii ''zhipuai/glm-4-0520''"
  have k: "configured_key ?env = Some demo_key"
    by (simp add: configured_key_def demo_env_simps demo_key_def ascii_def)
  have norm: "normalize_response ?raw = ?raw"
    by (simp add: normalize_response_def ascii_def strip_def lstrip_def rstrip_def isspace_def
        startswith_def)
  have unparsed: "json_loads ?env (normalize_response ?raw) = None"
    unfolding norm by (simp add: demo_env_simps ascii_def)
  have parsed: "json_loads ?env (normalize_response (ascii ''{}'')) = Some (JObj [])"
    by (simp add: normalize_response_plain_object demo_env_simps)
  have post0: "\<And>req. post ?env 0 req = Body (completion (JStr ?raw))"
    by (simp add: demo_env_simps scripted_def)
  have post1: "\<And>req. post ?env (Suc 0) req = Body (completion (JStr (ascii ''{}'')))"
    by (simp add: demo_env_simps scripted_def)
  have r0: "\<And>msgs. report_try ?env demo_key msgs 0 ?m1 = Inl (JSONDecodeError ?raw)"
    using unparsed
    by (simp add: report_try_def post0 report_analysis_def first_content_completion
        try_bind_def Let_def norm)
  have r1: "\<And>msgs. report_try ?env demo_key msgs (Suc 0) ?m2 = Inr (JObj [])"
    by (simp add: report_try_def post1 report_analysis_def first_content_completion
        try_bind_def parsed Let_def)
  have "call_glm_for_analysis ?env (ascii ''Hb 13.5'') [] =
      (Inr (JObj []), [report_request demo_key ?msgs ?m1, report_request demo_key ?msgs ?m2])"
    by (simp add: call_glm_for_analysis_def k report_models_to_try_def r0 r1 Let_def)
  with post0 unparsed show ?thesis by simp
qed

subsection \<open>The clean-up of a response\<close>

lemma strip_padded:
  assumes ws1: "list_all isspace ws1" and ws2: "list_all isspace ws2"
    and core: "core = [] \<or> (\<not> isspace (hd core) \<and> \<not> isspace (last core))"
  shows "strip (ws1 @ core @ ws2) = core"
proof -
  have r: "dropWhile isspace (rev ws2 @ rev core @ rev ws1) = dropWhile isspace (rev core @ rev ws1)"
    using ws2 by (intro dropWhile_append2) (simp add: list_all_iff)
  have l: "dropWhile isspace (ws1 @ core) = dropWhile isspace core"
    using ws1 by (intro dropWhile_append2) (simp add: list_all_iff)
  show ?thesis
  proof (cases "core = []")
    case True
    have "dropWhile isspace (rev ws2 @ rev ws1) = dropWhile isspace (rev ws1)"
      using ws2 by (intro dropWhile_append2) (simp add: list_all_iff)
    also have "\<dots> = []"
      using ws1 by (simp add: list_all_iff)
    finally have e: "dropWhile isspace (rev ws2 @ rev ws1) = []" .
    have "rstrip (ws1 @ [] @ ws2) = []" by (simp add: rstrip_def e)
    then show ?thesis unfolding True by (simp add: strip_def lstrip_def)
  next
    case False
    with core have h: "\<not> isspace (hd core)" and t: "\<not> isspace (last core)" by auto
    from False t have "dropWhile isspace (rev core @ rev ws1) = rev core @ rev ws1"
      by (intro dropWhile_self) (simp add: hd_append hd_rev)
    with r have "rstrip (ws1 @ core @ ws2) = ws1 @ core" by (simp add: rstrip_def)
    moreover from False h have "dropWhile isspace core = core"
      by (intro dropWhile_self) simp
    ultimately show ?thesis using l by (simp add: strip_def lstrip_def)
  qed
qed

lemma not_isspace_110: "\<not> isspace 110"
  by (simp add: isspace_def)

lemma startswith_fence_json:
  "startswith (ascii ''```'' @ body) (ascii ''```json'') \<longleftrightarrow> startswith body (ascii ''json'')"
  by (simp add: startswith_def ascii_def)

lemma startswith_json_before_fence:
  "startswith (body @ ascii ''```'') (ascii ''json'') \<longleftrightarrow> startswith body (ascii ''json'')"
proof (cases "4 \<le> length body")
  case True
  then show ?thesis by (simp add: startswith_def ascii_def)
next
  case False
  then have short: "length body < 4" by simp
  have "\<not> startswith body (ascii ''json'')"
  proof
    assume "startswith body (ascii ''json'')"
    then have "take (length (ascii ''json'')) body = ascii ''json''"
      by (simp only: startswith_def)
    then have "length (take (length (ascii ''json'')) body) = length (ascii ''json'')"
      by (rule arg_cong)
    with short show False by (simp add: ascii_def)
  qed
  moreover have "\<not> startswith (body @ ascii ''```'') (ascii ''json'')"
  proof
    assume "startswith (body @ ascii ''```'') (ascii ''json'')"
    then have eq: "take (length (ascii ''json'')) (body @ ascii ''```'') = ascii ''json''"
      by (simp only: startswith_def)
    have n: "take (length (ascii ''json'')) (body @ ascii ''```'') ! length body
        = (body @ ascii ''```'') ! length body"
      using short by (intro nth_take) (simp add: ascii_def)
    have "(body @ ascii ''```'') ! length body = 96"
      by (simp add: ascii_def)
    with eq n have bad: "ascii ''json'' ! length body = 96" by simp
    from short have "length body = 0 \<or> length body = 1 \<or> length body = 2 \<or> length body = 3"
      by arith
    with bad show False by (auto simp: ascii_def)
  qed
  ultimately show ?thesis by simp
qed

lemma normalize_response_fenced:
  assumes t: "strip raw = t" and fence: "startswith t (ascii ''```'')"
  shows "normalize_response raw =
    strip (let u = (if startswith t (ascii ''```json'') then drop 7 t else drop 3 t)
           in if endswith u (ascii ''```'') then take (length u - 3) u else u)"
  using assms by (simp add: normalize_response_def Let_def)

lemma normalize_response_tagged_closed:
  assumes "list_all isspace ws1" and "list_all isspace ws2"
  shows "normalize_response (ws1 @ ascii ''```json'' @ body @ ascii ''```'' @ ws2) = strip body"
proof -
  let ?t = "ascii ''```json'' @ body @ ascii ''```''"
  have "strip (ws1 @ ?t @ ws2) = ?t"
    using assms by (intro strip_padded) (simp_all add: ascii_def not_isspace_96)
  then have t: "strip (ws1 @ ascii ''```json'' @ body @ ascii ''```'' @ ws2) = ?t" by simp
  have f: "startswith ?t (ascii ''```'')" by (simp add: startswith_def ascii_def)
  have j: "startswith ?t (ascii ''```json'')" by (simp add: startswith_def)
  have d: "drop 7 ?t = body @ ascii ''```''" by (simp add: ascii_def)
  have e: "endswith (body @ ascii ''```'') (ascii ''```'')" by (rule endswith_append)
  have k: "take (length (body @ ascii ''```'') - 3) (body @ ascii ''```'') = body"
    by (simp add: ascii_def)
  show ?thesis
    unfolding normalize_response_fenced [OF t f] by (simp only: j d e k Let_def if_True)
qed

lemma normalize_response_untagged_closed:
  assumes "list_all isspace ws1" and "list_all isspace ws2"
    and nj: "\<not> startswith body (ascii ''json'')"
  shows "normalize_response (ws1 @ ascii ''```'' @ body @ ascii ''```'' @ ws2) = strip body"
proof -
  let ?t = "ascii ''```'' @ body @ ascii ''```''"
  have "strip (ws1 @ ?t @ ws2) = ?t"
    using assms by (intro strip_padded) (simp_all add: ascii_def not_isspace_96)
  then have t: "strip (ws1 @ ascii ''```'' @ body @ ascii ''```'' @ ws2) = ?t" by simp
  have f: "startswith ?t (ascii ''```'')" by (simp add: startswith_def)
  have j: "\<not> startswith ?t (ascii ''```json'')"
    using nj unfolding startswith_fence_json startswith_json_before_fence .
  have d: "drop 3 ?t = body @ ascii ''```''" by (simp add: ascii_def)
  have e: "endswith (body @ ascii ''```'') (ascii ''```'')" by (rule endswith_append)
  have k: "take (length (body @ ascii ''```'') - 3) (body @ ascii ''```'') = body"
    by (simp add: ascii_def)
  show ?thesis
    unfolding normalize_response_fenced [OF t f] by (simp only: j d e k Let_def if_True if_False)
qed

lemma normalize_response_tagged_open:
  assumes "list_all isspace ws1" and "list_all isspace ws2"
    and last: "body = [] \<or> \<not> isspace (last body)"
    and ne: "\<not> endswith body (ascii ''```'')"
  shows "normalize_response (ws1 @ ascii ''```json'' @ body @ ws2) = strip body"
proof -
  let ?t = "ascii ''```json'' @ body"
  have "strip (ws1 @ ?t @ ws2) = ?t"
    using assms(1,2) last
    by (intro strip_padded) (auto simp: ascii_def not_isspace_96 not_isspace_110)
  then have t: "strip (ws1 @ ascii ''```json'' @ body @ ws2) = ?t" by simp
  have f: "startswith ?t (ascii ''```'')" by (simp add: startswith_def ascii_def)
  have j: "startswith ?t (ascii ''```json'')" by (simp add: startswith_def)
  have d: "drop 7 ?t = body" by (simp add: ascii_def)
  show ?thesis
    unfolding normalize_response_fenced [OF t f] by (simp only: j d ne Let_def if_True if_False)
qed

lemma normalize_response_untagged_open:
  assumes "list_all isspace ws1" and "list_all isspace ws2"
    and last: "body = [] \<or> \<not> isspace (last body)"
    and nj: "\<not> startswith body (ascii ''json'')"
    and ne: "\<not> endswith body (ascii ''```'')"
  shows "normalize_response (ws1 @ ascii ''```'' @ body @ ws2) = strip body"
proof -
  let ?t = "ascii ''```'' @ body"
  have "strip (ws1 @ ?t @ ws2) = ?t"
    using assms(1,2) last
    by (intro strip_padded) (auto simp: ascii_def not_isspace_96)
  then have t: "strip (ws1 @ ascii ''```'' @ body @ ws2) = ?t" by simp
  have f: "startswith ?t (ascii ''```'')" by (simp add: startswith_def)
  have j: "\<not> startswith ?t (ascii ''```json'')"
    using nj unfolding startswith_fence_json .
  have d: "drop 3 ?t = body" by (simp add: ascii_def)
  show ?thesis
    unfolding normalize_response_fenced [OF t f] by (simp only: j d ne Let_def if_False)
qed

text \<open>
  Claim C4, as amended. The clean-up applies to a text that, once stripped of outer white
  space, begins with a fence. It drops the white space around the text, the leading fence
  together with the tag \<open>json\<close> when that follows it directly, and the trailing fence when
  there is one, and strips what is left: whatever stands between \<open>```json\<close> or \<open>```\<close> and
  the closing \<open>```\<close>, or the end of the text, is returned without its outer white space.
  The fenced example of the specification gives its payload. A text that does not begin with a
  fence, once stripped, is returned as it is, white space included. One application removes
  one layer of fences only, so the clean-up of a cleaned text changes nothing exactly when the
  cleaned text does not begin with a fence again. Stripping removes the white space before the
  first and after the last character that is not white space.
\<close>

theorem normalize_response_fences:
  \<open>normalize_response (ascii ''```json\<newline>{"a":1}\<newline>```'') = ascii ''{"a":1}'' \<and>
   normalize_response (ascii ''{"a":1}'') = ascii ''{"a":1}'' \<and>
   (\<forall>p. strip p = p \<longrightarrow>
      normalize_response (ascii ''```json\<newline>'' @ p @ ascii ''\<newline>```'') = p) \<and>
   (\<forall>raw. \<not> startswith (strip raw) (ascii ''```'') \<longrightarrow> normalize_response raw = raw) \<and>
   (\<forall>raw. \<not> startswith (normalize_response raw) (ascii ''```'') \<longrightarrow>
      normalize_response (normalize_response raw) = normalize_response raw) \<and>
   (\<forall>ws1 ws2 body. list_all isspace ws1 \<and> list_all isspace ws2 \<longrightarrow>
      normalize_response (ws1 @ ascii ''```json'' @ body @ ascii ''```'' @ ws2) = strip body) \<and>
   (\<forall>ws1 ws2 body. list_all isspace ws1 \<and> list_all isspace ws2 \<and>
      \<not> startswith body (ascii ''json'') \<longrightarrow>
      normalize_response (ws1 @ ascii ''```'' @ body @ ascii ''```'' @ ws2) = strip body) \<and>
   (\<forall>ws1 ws2 body. list_all isspace ws1 \<and> list_all isspace ws2 \<and>
      (body = [] \<or> \<not> isspace (last body)) \<and> \<not> endswith body (ascii ''```'') \<longrightarrow>
      normalize_response (ws1 @ ascii ''```json'' @ body @ ws2) = strip body) \<and>
   (\<forall>ws1 ws2 body. list_all isspace ws1 \<and> list_all isspace ws2 \<and>
      (body = [] \<or> \<not> isspace (last body)) \<and>
      \<not> startswith body (ascii ''json'') \<and> \<not> endswith body (ascii ''```'') \<longrightarrow>
      normalize_response (ws1 @ ascii ''```'' @ body @ ws2) = strip body) \<and>
   (\<forall>ws1 ws2 core. list_all isspace ws1 \<and> list_all isspace ws2 \<and>
      (core = [] \<or> (\<not> isspace (hd core) \<and> \<not> isspace (last core))) \<longrightarrow>
      strip (ws1 @ core @ ws2) = core)\<close>
proof (intro conjI allI impI; (elim conjE)?)
  show \<open>normalize_response (ascii ''```json\<newline>{"a":1}\<newline>```'') = ascii ''{"a":1}''\<close>
    by (simp add: normalize_response_def ascii_def strip_def lstrip_def rstrip_def isspace_def
        Let_def startswith_def endswith_def)
  show \<open>normalize_response (ascii ''{"a":1}'') = ascii ''{"a":1}''\<close>
    by (simp add: normalize_response_def ascii_def strip_def lstrip_def rstrip_def isspace_def
        Let_def startswith_def endswith_def)
next
  fix p :: pystr assume "strip p = p"
  then show \<open>normalize_response (ascii ''```json\<newline>'' @ p @ ascii ''\<newline>```'') = p\<close>
    by (rule normalize_response_fenced_json)
next
  fix raw assume "\<not> startswith (strip raw) (ascii ''```'')"
  then show "normalize_response raw = raw" by (rule normalize_response_unfenced)
next
  fix raw assume "\<not> startswith (normalize_response raw) (ascii ''```'')"
  then show "normalize_response (normalize_response raw) = normalize_response raw"
    by (rule normalize_response_twice)
next
  fix ws1 ws2 body :: pystr
  assume "list_all isspace ws1" and "list_all isspace ws2"
  then show "normalize_response (ws1 @ ascii ''```json'' @ body @ ascii ''```'' @ ws2) = strip body"
    by (rule normalize_response_tagged_closed)
next
  fix ws1 ws2 body :: pystr
  assume "list_all isspace ws1" and "list_all isspace ws2"
    and "\<not> startswith body (ascii ''json'')"
  then show "normalize_response (ws1 @ ascii ''```'' @ body @ ascii ''```'' @ ws2) = strip body"
    by (rule normalize_response_untagged_closed)
next
  fix ws1 ws2 body :: pystr
  assume "list_all isspace ws1" and "list_all isspace ws2"
    and "body = [] \<or> \<not> isspace (last body)" and "\<not> endswith body (ascii ''```'')"
  then show "normalize_response (ws1 @ ascii ''```json'' @ body @ ws2) = strip body"
    by (rule normalize_response_tagged_open)
next
  fix ws1 ws2 body :: pystr
  assume "list_all isspace ws1" and "list_all isspace ws2"
    and "body = [] \<or> \<not> isspace (last body)"
    and "\<not> startswith body (ascii ''json'')" and "\<not> endswith body (ascii ''```'')"
  then show "normalize_response (ws1 @ ascii ''```'' @ body @ ws2) = strip body"
    by (rule normalize_response_untagged_open)
next
  fix ws1 ws2 core :: pystr
  assume "list_all isspace ws1" and "list_all isspace ws2"
    and "core = [] \<or> (\<not> isspace (hd core) \<and> \<not> isspace (last core))"
  then show "strip (ws1 @ core @ ws2) = core"
    by (rule strip_padded)
qed

theorem normalize_response_fences_witness:
  \<open>normalize_response (ascii ''```json\<newline>[1, 2]\<newline>```'') = ascii ''[1, 2]'' \<and>
   normalize_response (ascii '' plain text '') = ascii '' plain text '' \<and>
   normalize_response (normalize_response (ascii '' ```{}``` '')) =
     normalize_response (ascii '' ```{}``` '') \<and>
   normalize_response (ascii '' \<newline>```json\<newline>{"a": 1}\<newline>``` \<newline>'') = ascii ''{"a": 1}'' \<and>
   normalize_response (ascii ''```\<newline>{"a":1}\<newline>```'') = ascii ''{"a":1}'' \<and>
   normalize_response (ascii ''```json\<newline>[1]'') = ascii ''[1]'' \<and>
   normalize_response (ascii '' ```[1]\<newline>'') = ascii ''[1]'' \<and>
   strip (ascii '' \<newline> a b \<newline>'') = ascii ''a b''\<close>
proof -
  note all = normalize_response_fences
  note a = all [THEN conjunct2, THEN conjunct2, THEN conjunct1, rule_format]
  note b = all [THEN conjunct2, THEN conjunct2, THEN conjunct2, THEN conjunct1, rule_format]
  note c = all [THEN conjunct2, THEN conjunct2, THEN conjunct2, THEN conjunct2, THEN conjunct1,
    rule_format]
  note tagged_closed = all [THEN conjunct2, THEN conjunct2, THEN conjunct2, THEN conjunct2,
    THEN conjunct2, THEN conjunct1, rule_format]
  note untagged_closed = all [THEN conjunct2, THEN conjunct2, THEN conjunct2, THEN conjunct2,
    THEN conjunct2, THEN conjunct2, THEN conjunct1, rule_format]
  note tagged_open = all [THEN conjunct2, THEN conjunct2, THEN conjunct2, THEN conjunct2,
    THEN conjunct2, THEN conjunct2, THEN conjunct2, THEN conjunct1, rule_format]
  note untagged_open = all [THEN conjunct2, THEN conjunct2, THEN conjunct2, THEN conjunct2,
    THEN conjunct2, THEN conjunct2, THEN conjunct2, THEN conjunct2, THEN conjunct1, rule_format]
  note padded = all [THEN conjunct2, THEN conjunct2, THEN conjunct2, THEN conjunct2,
    THEN conjunct2, THEN conjunct2, THEN conjunct2, THEN conjunct2, THEN conjunct2, rule_format]
  have 1: "strip (ascii ''[1, 2]'') = ascii ''[1, 2]''"
    by (simp add: ascii_def strip_def lstrip_def rstrip_def isspace_def)
  have 2: "\<not> startswith (strip (ascii '' plain text '')) (ascii ''```'')"
    by (simp add: ascii_def strip_def lstrip_def rstrip_def isspace_def startswith_def)
  have 3: \<open>\<not> startswith (normalize_response (ascii '' ```{}``` '')) (ascii ''```'')\<close>
    by (simp add: normalize_response_def ascii_def strip_def lstrip_def rstrip_def isspace_def
        Let_def startswith_def endswith_def)
  have "ascii ''```json\<newline>'' @ ascii ''[1, 2]'' @ ascii ''\<newline>```'' =
      ascii ''```json\<newline>[1, 2]\<newline>```''"
    by (simp add: ascii_def)
  with a [OF 1] have w1: "normalize_response (ascii ''```json\<newline>[1, 2]\<newline>```'') = ascii ''[1, 2]''"
    by simp
  have w4: \<open>normalize_response (ascii '' \<newline>```json\<newline>{"a": 1}\<newline>``` \<newline>'') = ascii ''{"a": 1}''\<close>
  proof -
    have \<open>normalize_response (ascii '' \<newline>'' @ ascii ''```json'' @ ascii ''\<newline>{"a": 1}\<newline>''
        @ ascii ''```'' @ ascii '' \<newline>'') = strip (ascii ''\<newline>{"a": 1}\<newline>'')\<close>
      by (rule tagged_closed) (simp add: ascii_def isspace_def)
    moreover have \<open>ascii '' \<newline>'' @ ascii ''```json'' @ ascii ''\<newline>{"a": 1}\<newline>''
        @ ascii ''```'' @ ascii '' \<newline>'' = ascii '' \<newline>```json\<newline>{"a": 1}\<newline>``` \<newline>''\<close>
      by (simp add: ascii_def)
    moreover have \<open>strip (ascii ''\<newline>{"a": 1}\<newline>'') = ascii ''{"a": 1}''\<close>
      by (simp add: ascii_def strip_def lstrip_def rstrip_def isspace_def)
    ultimately show ?thesis by (simp only:)
  qed
  have w5: \<open>normalize_response (ascii ''```\<newline>{"a":1}\<newline>```'') = ascii ''{"a":1}''\<close>
  proof -
    have \<open>normalize_response ([] @ ascii ''```'' @ ascii ''\<newline>{"a":1}\<newline>''
        @ ascii ''```'' @ []) = strip (ascii ''\<newline>{"a":1}\<newline>'')\<close>
      by (rule untagged_closed) (simp add: ascii_def startswith_def)
    moreover have \<open>[] @ ascii ''```'' @ ascii ''\<newline>{"a":1}\<newline>''
        @ ascii ''```'' @ [] = ascii ''```\<newline>{"a":1}\<newline>```''\<close>
      by (simp add: ascii_def)
    moreover have \<open>strip (ascii ''\<newline>{"a":1}\<newline>'') = ascii ''{"a":1}''\<close>
      by (simp add: ascii_def strip_def lstrip_def rstrip_def isspace_def)
    ultimately show ?thesis by (simp only:)
  qed
  have w6: "normalize_response (ascii ''```json\<newline>[1]'') = ascii ''[1]''"
  proof -
    have "normalize_response ([] @ ascii ''```json'' @ ascii ''\<newline>[1]'' @ [])
        = strip (ascii ''\<newline>[1]'')"
      by (rule tagged_open) (simp add: ascii_def isspace_def endswith_def)
    moreover have "[] @ ascii ''```json'' @ ascii ''\<newline>[1]'' @ [] = ascii ''```json\<newline>[1]''"
      by (simp add: ascii_def)
    moreover have "strip (ascii ''\<newline>[1]'') = ascii ''[1]''"
      by (simp add: ascii_def strip_def lstrip_def rstrip_def isspace_def)
    ultimately show ?thesis by (simp only:)
  qed
  have w7: "normalize_response (ascii '' ```[1]\<newline>'') = ascii ''[1]''"
  proof -
    have "normalize_response (ascii '' '' @ ascii ''```'' @ ascii ''[1]'' @ ascii ''\<newline>'')
        = strip (ascii ''[1]'')"
      by (rule untagged_open) (simp add: ascii_def isspace_def startswith_def endswith_def)
    moreover have "ascii '' '' @ ascii ''```'' @ ascii ''[1]'' @ ascii ''\<newline>''
        = ascii '' ```[1]\<newline>''"
      by (simp add: ascii_def)
    moreover have "strip (ascii ''[1]'') = ascii ''[1]''"
      by (simp add: ascii_def strip_def lstrip_def rstrip_def isspace_def)
    ultimately show ?thesis by (simp only:)
  qed
  have w8: "strip (ascii '' \<newline> a b \<newline>'') = ascii ''a b''"
  proof -
    have "strip (ascii '' \<newline> '' @ ascii ''a b'' @ ascii '' \<newline>'') = ascii ''a b''"
      by (rule padded) (simp add: ascii_def isspace_def)
    moreover have "ascii '' \<newline> '' @ ascii ''a b'' @ ascii '' \<newline>'' = ascii '' \<newline> a b \<newline>''"
      by (simp add: ascii_def)
    ultimately show ?thesis by (simp only:)
  qed
  from w1 b [OF 2] c [OF 3] w4 w5 w6 w7 w8 show ?thesis by (simp only: simp_thms)
qed

text \<open>
  Claim C4 as stated asks for idempotence on every text. A text with two leading fences is
  cleaned to a text that still begins with a fence, which a second application removes.
\<close>

theorem normalize_response_idempotent_counterexample:
  \<open>normalize_response (ascii ''``````{"a":1}'') = ascii ''```{"a":1}'' \<and>
   normalize_response (normalize_response (ascii ''``````{"a":1}'')) = ascii ''{"a":1}'' \<and>
   normalize_response (normalize_response (ascii ''``````{"a":1}'')) \<noteq>
     normalize_response (ascii ''``````{"a":1}'')\<close>
  by (simp add: normalize_response_def ascii_def strip_def lstrip_def rstrip_def isspace_def
      Let_def startswith_def endswith_def)

subsection \<open>The payload of the symptom analysis\<close>

lemma symptom_loop_sent:
  "set (snd (symptom_loop env key up models last_error sent)) \<subseteq>
     set sent \<union> symptom_request env key up ` set models"
proof (induction models arbitrary: last_error sent)
  case Nil
  then show ?case by simp
next
  case (Cons m models)
  show ?case
  proof (cases "symptom_try env key up (length sent) m")
    case (Inl e)
    with Cons.IH [of "Some e" "sent @ [symptom_request env key up m]"] show ?thesis
      by (auto simp: Let_def)
  next
    case (Inr result)
    then show ?thesis by (auto simp: Let_def)
  qed
qed

lemma symptom_payload_members:
  "map_of (symptom_payload env up m) (ascii ''model'') = Some (JStr m)"
  "map_of (symptom_payload env up m) (ascii ''messages'') =
     Some (JArr [message ''system'' system_instruction, message ''user'' up])"
  "map_of (symptom_payload env up m) (ascii ''response_format'') =
     (if supports_json_mode env m
      then Some (JObj [(ascii ''type'', JStr (ascii ''json_object''))]) else None)"
  by (simp_all add: symptom_payload_def Let_def update_conv' ascii_def)

text \<open>
  Claim C5. Every request that the loop of \<open>analyze_symptoms\<close> sends is for one of the
  models of the list, and its payload has the member \<open>response_format\<close>, with the value
  \<open>{"type": "json_object"}\<close>, exactly when the lower-cased name of that model contains
  \<open>gpt\<close> or \<open>deepseek\<close>; for any other model the payload has no such member.
\<close>

theorem response_format_only_for_capable:
  "\<forall>r \<in> set (snd (symptom_loop env key up models None [])).
     \<exists>m \<in> set models.
       json_member (req_json r) (ascii ''model'') = Some (JStr m) \<and>
       json_member (req_json r) (ascii ''response_format'') =
         (if contains (lower env m) (ascii ''gpt'') \<or> contains (lower env m) (ascii ''deepseek'')
          then Some (JObj [(ascii ''type'', JStr (ascii ''json_object''))]) else None)"
proof
  fix r assume "r \<in> set (snd (symptom_loop env key up models None []))"
  with symptom_loop_sent [of env key up models None "[]"]
  obtain m where m: "m \<in> set models" and r: "r = symptom_request env key up m"
    by auto
  from r have "json_member (req_json r) (ascii ''model'') = Some (JStr m)"
    "json_member (req_json r) (ascii ''response_format'') =
       (if contains (lower env m) (ascii ''gpt'') \<or> contains (lower env m) (ascii ''deepseek'')
        then Some (JObj [(ascii ''type'', JStr (ascii ''json_object''))]) else None)"
    by (simp_all add: symptom_request_def json_member_def symptom_payload_members
        supports_json_mode_def)
  with m show "\<exists>m \<in> set models.
       json_member (req_json r) (ascii ''model'') = Some (JStr m) \<and>
       json_member (req_json r) (ascii ''response_format'') =
         (if contains (lower env m) (ascii ''gpt'') \<or> contains (lower env m) (ascii ''deepseek'')
          then Some (JObj [(ascii ''type'', JStr (ascii ''json_object''))]) else None)"
    by blast
qed

theorem response_format_only_for_capable_witness:
  "map (\<lambda>r. (json_member (req_json r) (ascii ''model''),
             json_member (req_json r) (ascii ''response_format'')))
     (snd (symptom_loop (demo_env (Some demo_key) []) demo_key (ascii ''prompt'')
        symptom_models_to_try None [])) =
   [(Some (JStr (ascii ''zhipuai/glm-4-plus'')), None),
    (Some (JStr (ascii ''zhipuai/glm-4-0520'')), None),
    (Some (JStr (ascii ''zhipuai/glm-4'')), None),
    (Some (JStr (ascii ''openai/gpt-3.5-turbo'')),
     Some (JObj [(ascii ''type'', JStr (ascii ''json_object''))]))]"
proof -
  let ?env = "demo_env (Some demo_key) []"
  let ?up = "ascii ''prompt''"
  have f: "\<forall>i<length symptom_models_to_try.
      symptom_try ?env demo_key ?up i (symptom_models_to_try ! i) = Inl timed_out"
    by (simp add: symptom_try_def demo_env_simps scripted_def)
  have sent: "snd (symptom_loop ?env demo_key ?up symptom_models_to_try None []) =
      map (symptom_request ?env demo_key ?up) symptom_models_to_try"
    using symptom_loop_exhausted [OF f] by simp
  have models: "json_member (req_json (symptom_request ?env demo_key ?up m)) (ascii ''model'')
      = Some (JStr m)" for m
    by (simp add: symptom_request_def json_member_def symptom_payload_members)
  have rf: "json_member (req_json (symptom_request ?env demo_key ?up m)) (ascii ''response_format'') =
      (if contains (lower ?env m) (ascii ''gpt'') \<or> contains (lower ?env m) (ascii ''deepseek'')
       then Some (JObj [(ascii ''type'', JStr (ascii ''json_object''))]) else None)"
    if "m \<in> set symptom_models_to_try" for m
  proof -
    from that have "symptom_request ?env demo_key ?up m
        \<in> set (snd (symptom_loop ?env demo_key ?up symptom_models_to_try None []))"
      unfolding sent by simp
    with response_format_only_for_capable [of ?env demo_key ?up symptom_models_to_try]
    obtain m' where "json_member (req_json (symptom_request ?env demo_key ?up m)) (ascii ''model'')
          = Some (JStr m')"
      and "json_member (req_json (symptom_request ?env demo_key ?up m)) (ascii ''response_format'') =
        (if contains (lower ?env m') (ascii ''gpt'') \<or> contains (lower ?env m') (ascii ''deepseek'')
         then Some (JObj [(ascii ''type'', JStr (ascii ''json_object''))]) else None)"
      by blast
    with models [of m] show ?thesis by simp
  qed
  have low: "contains (lower ?env (ascii ''zhipuai/glm-4-plus'')) (ascii ''gpt'') = False"
    "contains (lower ?env (ascii ''zhipuai/glm-4-plus'')) (ascii ''deepseek'') = False"
    "contains (lower ?env (ascii ''zhipuai/glm-4-0520'')) (ascii ''gpt'') = False"
    "contains (lower ?env (ascii ''zhipuai/glm-4-0520'')) (ascii ''deepseek'') = False"
    "contains (lower ?env (ascii ''zhipuai/glm-4'')) (ascii ''gpt'') = False"
    "contains (lower ?env (ascii ''zhipuai/glm-4'')) (ascii ''deepseek'') = False"
    "contains (lower ?env (ascii ''openai/gpt-3.5-turbo'')) (ascii ''gpt'') = True"
    by (simp_all add: demo_env_simps ascii_lower_def ascii_def startswith_def)
  show ?thesis
    unfolding sent
    by (simp add: symptom_models_to_try_def models) (simp add: rf symptom_models_to_try_def low)
qed

subsection \<open>The prompt and the validation of the symptom analysis\<close>

lemma contains_prefix: "contains (p @ b) p"
proof (cases "p @ b")
  case Nil
  then show ?thesis by simp
next
  case (Cons c s)
  have "startswith (p @ b) p" by (simp add: startswith_def)
  then show ?thesis unfolding Cons by simp
qed

lemma contains_append_right: "contains s p \<Longrightarrow> contains (a @ s) p"
  by (induction a) simp_all

lemma symptom_user_prompt_pinned:
  "contains (symptom_user_prompt data new_id) (pinned_id new_id)"
  unfolding symptom_user_prompt_def
  by (rule contains_prefix | rule contains_append_right)+

lemma validate_assessment_needs_urgency_level:
  assumes "map_of d (ascii ''urgency_level'') = None"
  shows "validate_assessment env (JObj d) = Inl ValidationError"
  using assms by (simp add: validate_assessment_def str_field_def split: option.splits)

lemma symptom_handlers_ValidationError:
  "symptom_handlers env ValidationError =
     (if list_ex (contains (lower env (str_exn env ValidationError))) error_keywords
      then HTTPException 502
             (ascii ''OpenRouter API Error: Check your API key or quota. Details: ''
              @ str_exn env ValidationError)
      else HTTPException 500
             (ascii ''An unexpected error occurred during API call: ''
              @ str_exn env ValidationError))"
  by (simp add: symptom_handlers_def Let_def)

lemma symptom_response_missing_urgency_level:
  assumes "first_content result = Inr (JStr raw)"
    and "json_loads env (normalize_response raw) = Some (JObj d)"
    and "map_of d (ascii ''urgency_level'') = None"
  shows "symptom_response env result = Inl (symptom_handlers env ValidationError)"
  using assms
  by (simp add: symptom_response_def extract_raw_json_text_content try_bind_def
      parse_assessment_def Let_def validate_assessment_needs_urgency_level)

text \<open>
  Claim C6. With the key configured, every request that \<open>analyze_symptoms\<close> sends carries
  the system instruction and the user prompt, and the user prompt contains the sentence
  "The assessment_id field MUST be set to:" followed by the identifier just drawn from
  \<open>uuid4\<close>. An object without \<open>urgency_level\<close> fails the validation against
  \<open>SymptomAssessment\<close>; when the text of the model parses to such an object the request
  ends in an \<open>HTTPException\<close> (status 500, or 502 when the text of the validation error
  holds one of the key or quota words), never in an assessment with a default.
\<close>

theorem symptom_prompt_pins_id_and_validates:
  assumes "configured_key env = Some key"
  shows
    "(\<forall>r \<in> set (snd (analyze_symptoms env data)).
        json_member (req_json r) (ascii ''messages'') =
          Some (JArr [message ''system'' system_instruction,
                      message ''user'' (symptom_user_prompt data (uuid4 env))])) \<and>
     contains (symptom_user_prompt data (uuid4 env)) (pinned_id (uuid4 env)) \<and>
     (\<forall>d. map_of d (ascii ''urgency_level'') = None \<longrightarrow>
        validate_assessment env (JObj d) = Inl ValidationError) \<and>
     (\<forall>result sent raw d.
        symptom_loop env key (symptom_user_prompt data (uuid4 env)) symptom_models_to_try None []
          = (Inr result, sent) \<and>
        first_content result = Inr (JStr raw) \<and>
        json_loads env (normalize_response raw) = Some (JObj d) \<and>
        map_of d (ascii ''urgency_level'') = None \<longrightarrow>
        analyze_symptoms env data = (Inl (symptom_handlers env ValidationError), sent) \<and>
        (\<exists>code detail. symptom_handlers env ValidationError = HTTPException code detail \<and>
           (code = 500 \<or> code = 502)))"
proof (intro conjI ballI allI impI; (elim conjE)?)
  let ?up = "symptom_user_prompt data (uuid4 env)"
  fix r assume r: "r \<in> set (snd (analyze_symptoms env data))"
  have "snd (analyze_symptoms env data) =
      snd (symptom_loop env key ?up symptom_models_to_try None [])"
    using assms by (simp add: analyze_symptoms_def Let_def split: prod.splits sum.splits)
  with r symptom_loop_sent [of env key ?up symptom_models_to_try None "[]"]
  obtain m where "r = symptom_request env key ?up m" by auto
  then show "json_member (req_json r) (ascii ''messages'') =
      Some (JArr [message ''system'' system_instruction, message ''user'' ?up])"
    by (simp add: symptom_request_def json_member_def symptom_payload_members)
next
  show "contains (symptom_user_prompt data (uuid4 env)) (pinned_id (uuid4 env))"
    by (rule symptom_user_prompt_pinned)
next
  fix d :: pydict assume "map_of d (ascii ''urgency_level'') = None"
  then show "validate_assessment env (JObj d) = Inl ValidationError"
    by (rule validate_assessment_needs_urgency_level)
next
  fix result sent raw d
  assume loop: "symptom_loop env key (symptom_user_prompt data (uuid4 env))
        symptom_models_to_try None [] = (Inr result, sent)"
    and "first_content result = Inr (JStr raw)"
    and "json_loads env (normalize_response raw) = Some (JObj d)"
    and "map_of d (ascii ''urgency_level'') = None"
  then have "symptom_response env result = Inl (symptom_handlers env ValidationError)"
    by (intro symptom_response_missing_urgency_level)
  with loop assms
  show "analyze_symptoms env data = (Inl (symptom_handlers env ValidationError), sent)"
    by (simp add: analyze_symptoms_def Let_def)
next
  show "\<exists>code detail. symptom_handlers env ValidationError = HTTPException code detail \<and>
      (code = 500 \<or> code = 502)"
    by (simp add: symptom_handlers_ValidationError)
qed

theorem symptom_prompt_pins_id_and_validates_witness:
  "analyze_symptoms (demo_env (Some demo_key) [Body (completion (JStr (ascii ''{}'')))])
     demo_request =
     (Inl (HTTPException 500 (ascii ''An unexpected error occurred during API call: error'')),
      [symptom_request (demo_env (Some demo_key) [Body (completion (JStr (ascii ''{}'')))])
         demo_key
         (symptom_user_prompt demo_request (ascii ''123e4567-e89b-42d3-a456-426614174000''))
         (ascii ''zhipuai/glm-4-plus'')]) \<and>
   contains (symptom_user_prompt demo_request (ascii ''123e4567-e89b-42d3-a456-426614174000''))
     (ascii ''The assessment_id field MUST be set to: 123e4567-e89b-42d3-a456-426614174000'')"
proof -
  let ?env = "demo_env (Some demo_key) [Body (completion (JStr (ascii ''{}'')))]"
  let ?id = "ascii ''123e4567-e89b-42d3-a456-426614174000''"
  let ?up = "symptom_user_prompt demo_request ?id"
  let ?sent = "[symptom_request ?env demo_key ?up (ascii ''zhipuai/glm-4-plus'')]"
  have k: "configured_key ?env = Some demo_key"
    by (simp add: configured_key_def demo_env_simps demo_key_def ascii_def)
  have id: "uuid4 ?env = ?id" by (simp add: demo_env_simps)
  have loop: "symptom_loop ?env demo_key (symptom_user_prompt demo_request (uuid4 ?env))
      symptom_models_to_try None [] = (Inr (completion (JStr (ascii ''{}''))), ?sent)"
    by (simp add: id symptom_models_to_try_def symptom_try_def demo_env_simps scripted_def Let_def)
  have parsed: "json_loads ?env (normalize_response (ascii ''{}'')) = Some (JObj [])"
    by (simp add: normalize_response_plain_object demo_env_simps)
  have handler: "symptom_handlers ?env ValidationError =
      HTTPException 500 (ascii ''An unexpected error occurred during API call: error'')"
    by (simp add: symptom_handlers_ValidationError demo_env_simps error_keywords_def
        ascii_lower_def ascii_def startswith_def)
  have pin: "pinned_id ?id =
      ascii ''The assessment_id field MUST be set to: 123e4567-e89b-42d3-a456-426614174000''"
    by (simp add: pinned_id_def ascii_def)
  from symptom_prompt_pins_id_and_validates [OF k, of demo_request]
  have "contains (symptom_user_prompt demo_request (uuid4 ?env)) (pinned_id (uuid4 ?env))"
    and "\<And>result sent raw d.
        symptom_loop ?env demo_key (symptom_user_prompt demo_request (uuid4 ?env))
          symptom_models_to_try None [] = (Inr result, sent) \<Longrightarrow>
        first_content result = Inr (JStr raw) \<Longrightarrow>
        json_loads ?env (normalize_response raw) = Some (JObj d) \<Longrightarrow>
        map_of d (ascii ''urgency_level'') = None \<Longrightarrow>
        analyze_symptoms ?env demo_request = (Inl (symptom_handlers ?env ValidationError), sent)"
    by blast+
  from this(1) this(2) [OF loop first_content_completion parsed] show ?thesis
    by (simp add: id pin handler)
qed

subsection \<open>The API key\<close>



subsection \<open>The diagnostic of a text that does not parse\<close>

lemma sublist_strip: "sublist (strip s) s"
proof -
  have "sublist (rev (dropWhile isspace (rev s))) s"
    by (simp add: sublist_rev_left)
  moreover have "sublist (strip s) (rev (dropWhile isspace (rev s)))"
    by (simp add: strip_def lstrip_def rstrip_def)
  ultimately show ?thesis by (rule sublist_order.order.trans [rotated])
qed

lemma sublist_normalize_response: "sublist (normalize_response raw) raw"
proof (cases "startswith (strip raw) (ascii ''```'')")
  case False
  then show ?thesis by (simp add: normalize_response_unfenced)
next
  case True
  define t1 where "t1 = strip raw"
  define t2 where "t2 = (if startswith t1 (ascii ''```json'') then drop 7 t1
    else if startswith t1 (ascii ''```'') then drop 3 t1 else t1)"
  define t3 where "t3 = (if endswith t2 (ascii ''```'') then take (length t2 - 3) t2 else t2)"
  have eq: "normalize_response raw = strip t3"
    using True by (simp add: normalize_response_def Let_def t1_def t2_def t3_def)
  have "sublist t1 raw" unfolding t1_def by (rule sublist_strip)
  moreover have "sublist t2 t1" by (simp add: t2_def)
  moreover have "sublist t3 t2" by (simp add: t3_def)
  moreover have "sublist (strip t3) t3" by (rule sublist_strip)
  ultimately have "sublist (strip t3) raw"
    by (meson sublist_order.order.trans)
  then show ?thesis by (simp add: eq)
qed

text \<open>
  Claim C8, as amended. When the content of the first completion is a text whose cleaned form
  \<open>json.loads\<close> rejects, \<open>analyze_symptoms\<close> ends in an \<open>HTTPException\<close> with status 500
  whose detail is the fixed message followed by \<open>raw_json_text[:1000]\<close>, where
  \<open>raw_json_text\<close> is the text handed to the parser: at most 1000 characters, all of them a
  contiguous part of the original text; they are the first 1000 characters of the original text
  when it carries no leading fence, and they leave part of the original text out whenever the
  cleaned text is longer than 1000 characters.
\<close>

theorem malformed_json_diagnostic_bounded:
  assumes "first_content result = Inr (JStr raw)"
    and "json_loads env (normalize_response raw) = None"
  shows "\<exists>snippet.
      symptom_response env result =
        Inl (HTTPException 500
          (ascii ''AI returned malformed JSON. Raw response (truncated): '' @ snippet)) \<and>
      snippet = take 1000 (normalize_response raw) \<and>
      length snippet \<le> 1000 \<and>
      sublist snippet raw \<and>
      (\<not> startswith (strip raw) (ascii ''```'') \<longrightarrow> snippet = take 1000 raw) \<and>
      (1000 < length (normalize_response raw) \<longrightarrow> length snippet < length raw)"
proof (intro exI [of _ "take 1000 (normalize_response raw)"] conjI impI)
  show "symptom_response env result =
      Inl (HTTPException 500
        (ascii ''AI returned malformed JSON. Raw response (truncated): ''
         @ take 1000 (normalize_response raw)))"
    using assms by (rule symptom_response_malformed)
  show "take 1000 (normalize_response raw) = take 1000 (normalize_response raw)" ..
  show "length (take 1000 (normalize_response raw)) \<le> 1000" by simp
  have "sublist (take 1000 (normalize_response raw)) (normalize_response raw)" by simp
  then show "sublist (take 1000 (normalize_response raw)) raw"
    using sublist_normalize_response by (rule sublist_order.order.trans)
next
  assume "\<not> startswith (strip raw) (ascii ''```'')"
  then show "take 1000 (normalize_response raw) = take 1000 raw"
    by (simp add: normalize_response_unfenced)
next
  assume "1000 < length (normalize_response raw)"
  moreover have "length (normalize_response raw) \<le> length raw"
    using sublist_normalize_response by (rule sublist_length_le)
  ultimately show "length (take 1000 (normalize_response raw)) < length raw" by simp
qed

theorem malformed_json_diagnostic_bounded_witness:
  "symptom_response (demo_env (Some demo_key) []) (completion (JStr (ascii ''not json''))) =
     Inl (HTTPException 500
       (ascii ''AI returned malformed JSON. Raw response (truncated): not json'')) \<and>
   sublist (ascii ''not json'') (ascii ''not json'')"
proof -
  let ?raw = "ascii ''not json''"
  let ?env = "demo_env (Some demo_key) []"
  have norm: "normalize_response ?raw = ?raw"
    by (simp add: normalize_response_def ascii_def strip_def lstrip_def rstrip_def isspace_def
        startswith_def)
  have unparsed: "json_loads ?env (normalize_response ?raw) = None"
    unfolding norm by (simp add: demo_env_simps ascii_def)
  have msg: "ascii ''AI returned malformed JSON. Raw response (truncated): '' @ take 1000 ?raw
      = ascii ''AI returned malformed JSON. Raw response (truncated): not json''"
    by (simp add: ascii_def)
  from malformed_json_diagnostic_bounded [OF first_content_completion unparsed]
  show ?thesis unfolding norm by (auto simp: msg)
qed

text \<open>
  Claim C8 as it was stated does not hold: for the text \<open>```not json\<close> the detail carries
  \<open>not json\<close>, which is not how that text begins, and the text \<open>not json\<close>, being shorter
  than 1000 characters, is carried whole.
\<close>

theorem malformed_json_diagnostic_not_prefix:
  \<open>symptom_response (demo_env (Some demo_key) [])
     (completion (JStr (ascii ''```not json''))) =
     Inl (HTTPException 500
       (ascii ''AI returned malformed JSON. Raw response (truncated): not json'')) \<and>
   take 8 (ascii ''```not json'') = ascii ''```not j'' \<and>
   symptom_response (demo_env (Some demo_key) [])
     (completion (JStr (ascii ''not json''))) =
     Inl (HTTPException 500
       (ascii ''AI returned malformed JSON. Raw response (truncated): not json''))\<close>
proof -
  let ?env = "demo_env (Some demo_key) []"
  have norm: "normalize_response (ascii ''not json'') = ascii ''not json''"
    by (simp add: normalize_response_def ascii_def strip_def lstrip_def rstrip_def isspace_def
        startswith_def)
  have fenced: "normalize_response (ascii ''```not json'') = ascii ''not json''"
    by (simp add: normalize_response_def ascii_def strip_def lstrip_def rstrip_def isspace_def
        startswith_def endswith_def Let_def)
  have unparsed: "json_loads ?env (ascii ''not json'') = None"
    by (simp add: demo_env_simps ascii_def)
  have msg: "ascii ''AI returned malformed JSON. Raw response (truncated): ''
      @ take 1000 (ascii ''not json'')
      = ascii ''AI returned malformed JSON. Raw response (truncated): not json''"
    by (simp add: ascii_def)
  have a: "symptom_response ?env (completion (JStr (ascii ''```not json''))) =
      Inl (HTTPException 500
        (ascii ''AI returned malformed JSON. Raw response (truncated): not json''))"
    using symptom_response_malformed [OF first_content_completion, of ?env "ascii ''```not json''"]
    by (simp add: fenced unparsed msg)
  have b: "symptom_response ?env (completion (JStr (ascii ''not json''))) =
      Inl (HTTPException 500
        (ascii ''AI returned malformed JSON. Raw response (truncated): not json''))"
    using symptom_response_malformed [OF first_content_completion, of ?env "ascii ''not json''"]
    by (simp add: norm unparsed msg)
  have c: "take 8 (ascii ''```not json'') = ascii ''```not j''" by (simp add: ascii_def)
  from a b c show ?thesis by simp
qed

subsection \<open>The confidence score\<close>

lemma py_min_le: "py_min (a::'f::linorder) b \<le> a"
  by (auto simp: py_min_def)

lemma py_max_bounds: "(lo::'f::linorder) \<le> hi \<Longrightarrow> x \<le> hi \<Longrightarrow> lo \<le> py_max lo x \<and> py_max lo x \<le> hi"
  by (auto simp: py_max_def)

text \<open>
  Claim C9. Whatever the question, the records and the answer, the score that
  \<open>calculate_confidence\<close> returns lies between 0.1 and 1.0, both included. This holds for
  any carrier of the floats that is linearly ordered and has 0.1 below 1.0, whatever its
  addition and subtraction round to.
\<close>

theorem calculate_confidence_clamped:
  fixes flt :: "rat \<Rightarrow> 'f::{linorder,plus,minus}"
  assumes "flt (1 / 10) \<le> flt 1"
  shows "flt (1 / 10) \<le> calculate_confidence flt env question records answer \<and>
         calculate_confidence flt env question records answer \<le> flt 1"
  unfolding calculate_confidence_def Let_def
  using assms by (intro py_max_bounds py_min_le)

theorem calculate_confidence_clamped_witness:
  "(1 / 10 :: rat) \<le> calculate_confidence (\<lambda>r. r) (demo_env None []) (ascii ''What is my sugar level?'')
       [()] (ascii ''Your test result is 110, you may consult with a doctor'') \<and>
   calculate_confidence (\<lambda>r. r) (demo_env None []) (ascii ''What is my sugar level?'')
       [()] (ascii ''Your test result is 110, you may consult with a doctor'') \<le> (1 :: rat) \<and>
   calculate_confidence (\<lambda>r. r) (demo_env None []) (ascii ''What is my sugar level?'')
       [()] (ascii ''Your test result is 110, you may consult with a doctor'') = (7 / 10 :: rat)"
proof -
  have "calculate_confidence (\<lambda>r. r) (demo_env None []) (ascii ''What is my sugar level?'')
       [()] (ascii ''Your test result is 110, you may consult with a doctor'') = (7 / 10 :: rat)"
    by (simp add: calculate_confidence_def demo_env_def ascii_lower_def ascii_def Let_def
        py_max_def py_min_def uncertain_phrases_def medical_terms_def startswith_def)
  with calculate_confidence_clamped [of "\<lambda>r. r" "demo_env None []"
      "ascii ''What is my sugar level?''" "[()]"
      "ascii ''Your test result is 110, you may consult with a doctor''"]
  show ?thesis by simp
qed

subsection \<open>The stored explanations\<close>

lemma filter_neq_then_eq: "filter (\<lambda>x. f x = r) (filter (\<lambda>x. f x \<noteq> r) xs) = []"
  by (induction xs) auto

lemma length_filter_filter_le:
  "length (filter P (filter Q xs)) \<le> length (filter P xs)"
  by (induction xs) auto

text \<open>
  Claim C10. For every state of the database file and every explanation with a \<open>record_id\<close>,
  when the file can be written \<open>insert_explanation\<close> returns the explanation and leaves a
  database in which the explanations with that \<open>record_id\<close> are the new one alone, and the
  explanations with another \<open>record_id\<close> are the ones from before, in their order; the
  medical records are untouched. So if no \<open>record_id\<close> had more than one explanation
  before, none has after.
\<close>

theorem insert_explanation_one_per_record:
  assumes "map_of explanation_data (ascii ''record_id'') = Some record_id"
    and "writable st"
  shows "\<exists>st'. insert_explanation st explanation_data = Inr (explanation_data, st') \<and>
           writable st' \<and>
           medical_records (load_database st') = medical_records (load_database st) \<and>
           filter (\<lambda>exp. dict_get exp (ascii ''record_id'') = record_id)
             (report_explanations (load_database st')) = [explanation_data] \<and>
           filter (\<lambda>exp. dict_get exp (ascii ''record_id'') \<noteq> record_id)
             (report_explanations (load_database st')) =
           filter (\<lambda>exp. dict_get exp (ascii ''record_id'') \<noteq> record_id)
             (report_explanations (load_database st)) \<and>
           ((\<forall>r. length (filter (\<lambda>exp. dict_get exp (ascii ''record_id'') = r)
                   (report_explanations (load_database st))) \<le> 1) \<longrightarrow>
            (\<forall>r. length (filter (\<lambda>exp. dict_get exp (ascii ''record_id'') = r)
                   (report_explanations (load_database st'))) \<le> 1))"
proof -
  let ?k = "ascii ''record_id''"
  let ?old = "report_explanations (load_database st)"
  let ?kept = "filter (\<lambda>exp. dict_get exp ?k \<noteq> record_id) ?old"
  let ?db = "(load_database st)\<lparr>report_explanations := ?kept @ [explanation_data]\<rparr>"
  let ?st = "st\<lparr>db_file := Some ?db\<rparr>"
  from assms(1) have own: "dict_get explanation_data ?k = record_id"
    by (simp add: dict_get_def)
  from assms have res: "insert_explanation st explanation_data = Inr (explanation_data, ?st)"
    by (simp add: insert_explanation_def save_database_def try_bind_def Let_def)
  have new: "report_explanations (load_database ?st) = ?kept @ [explanation_data]"
    "medical_records (load_database ?st) = medical_records (load_database st)"
    by (simp_all add: load_database_def)
  have one: "filter (\<lambda>exp. dict_get exp ?k = record_id) (?kept @ [explanation_data])
      = [explanation_data]"
    using own by (simp add: filter_neq_then_eq)
  have others: "filter (\<lambda>exp. dict_get exp ?k \<noteq> record_id) (?kept @ [explanation_data]) = ?kept"
    using own by simp
  have inv: "\<forall>r. length (filter (\<lambda>exp. dict_get exp ?k = r) (?kept @ [explanation_data])) \<le> 1"
    if old: "\<forall>r. length (filter (\<lambda>exp. dict_get exp ?k = r) ?old) \<le> 1"
  proof
    fix r
    show "length (filter (\<lambda>exp. dict_get exp ?k = r) (?kept @ [explanation_data])) \<le> 1"
    proof (cases "r = record_id")
      case True
      with one show ?thesis by simp
    next
      case False
      with own have "filter (\<lambda>exp. dict_get exp ?k = r) (?kept @ [explanation_data])
          = filter (\<lambda>exp. dict_get exp ?k = r) ?kept"
        by auto
      moreover have "length (filter (\<lambda>exp. dict_get exp ?k = r) ?kept)
          \<le> length (filter (\<lambda>exp. dict_get exp ?k = r) ?old)"
        by (rule length_filter_filter_le)
      ultimately show ?thesis using old [rule_format, of r] by simp
    qed
  qed
  show ?thesis
  proof (intro exI [of _ ?st] conjI impI)
    show "insert_explanation st explanation_data = Inr (explanation_data, ?st)" by (rule res)
    show "writable ?st" using assms(2) by simp
    show "medical_records (load_database ?st) = medical_records (load_database st)"
      by (rule new)
    show "filter (\<lambda>exp. dict_get exp ?k = record_id) (report_explanations (load_database ?st))
        = [explanation_data]"
      unfolding new(1) by (rule one)
    show "filter (\<lambda>exp. dict_get exp ?k \<noteq> record_id) (report_explanations (load_database ?st))
        = ?kept"
      unfolding new(1) by (rule others)
    assume "\<forall>r. length (filter (\<lambda>exp. dict_get exp ?k = r) ?old) \<le> 1"
    then show "\<forall>r. length (filter (\<lambda>exp. dict_get exp ?k = r)
        (report_explanations (load_database ?st))) \<le> 1"
      unfolding new(1) by (rule inv)
  qed
qed

theorem insert_explanation_one_per_record_witness:
  "insert_explanation
     \<lparr>db_file = Some \<lparr>medical_records = [],
         report_explanations =
           [[(ascii ''record_id'', JStr (ascii ''r1'')), (ascii ''risk_level'', JStr (ascii ''LOW''))],
            [(ascii ''record_id'', JStr (ascii ''r2'')), (ascii ''risk_level'', JStr (ascii ''HIGH''))]]\<rparr>,
      writable = True\<rparr>
     [(ascii ''record_id'', JStr (ascii ''r1'')), (ascii ''risk_level'', JStr (ascii ''MODERATE''))] =
   Inr ([(ascii ''record_id'', JStr (ascii ''r1'')), (ascii ''risk_level'', JStr (ascii ''MODERATE''))],
     \<lparr>db_file = Some \<lparr>medical_records = [],
         report_explanations =
           [[(ascii ''record_id'', JStr (ascii ''r2'')), (ascii ''risk_level'', JStr (ascii ''HIGH''))],
            [(ascii ''record_id'', JStr (ascii ''r1'')), (ascii ''risk_level'', JStr (ascii ''MODERATE''))]]\<rparr>,
      writable = True\<rparr>)"
proof -
  let ?st = "\<lparr>db_file = Some \<lparr>medical_records = [],
         report_explanations =
           [[(ascii ''record_id'', JStr (ascii ''r1'')), (ascii ''risk_level'', JStr (ascii ''LOW''))],
            [(ascii ''record_id'', JStr (ascii ''r2'')), (ascii ''risk_level'', JStr (ascii ''HIGH''))]]\<rparr>,
      writable = True\<rparr>"
  let ?new = "[(ascii ''record_id'', JStr (ascii ''r1'')),
      (ascii ''risk_level'', JStr (ascii ''MODERATE''))]"
  have 1: "map_of ?new (ascii ''record_id'') = Some (JStr (ascii ''r1''))" by simp
  have 2: "writable ?st" by simp
  from insert_explanation_one_per_record [OF 1 2]
  obtain st' where "insert_explanation ?st ?new = Inr (?new, st')" by blast
  then show ?thesis
    by (simp add: insert_explanation_def load_database_def save_database_def try_bind_def
        dict_get_def ascii_def)
qed

end
